theory Spec2Isabelle
  imports Complex_Main "HOL-Library.AList"
begin

section \<open>Numbers\<close>

text \<open>
  The TypeScript \<^verbatim>\<open>number\<close> of positions, sizes, velocities and timers is modelled by
  \<^typ>\<open>real\<close>, and arithmetic on it is exact, with one exception. The remaining time of a
  power-up comes out of hundreds of subtractions \<^verbatim>\<open>timer - deltaTime\<close>, and whether it
  has reached 0 depends on how each of them is rounded. That subtraction is modelled as the
  code performs it, in binary64 with rounding to nearest, ties to even: \<open>double_round\<close>
  takes the exact difference to the nearest number with 53 significant bits, and to the
  nearest multiple of \<open>2 ^ (-1074)\<close> below \<open>2 ^ (-1022)\<close>. There is no NaN, no
  infinity and no overflow. Counters that only ever hold integers (score, lives, level
  numbers) are \<^typ>\<open>int\<close>.
\<close>

text \<open>
  \<open>binade x\<close> is the exponent of \<open>x\<close>, \<open>ulp x\<close> the distance between neighbouring
  binary64 numbers at \<open>x\<close>, and \<open>roundEven\<close> rounds to the nearest integer, a tie to the
  even one.
\<close>

definition binade :: "real \<Rightarrow> int" where
  "binade x = max \<lfloor>log 2 \<bar>x\<bar>\<rfloor> (- 1022)"

definition ulp :: "real \<Rightarrow> real" where
  "ulp x = 2 powr (real_of_int (binade x) - 52)"

definition roundEven :: "real \<Rightarrow> int" where
  "roundEven y =
     (let f = \<lfloor>y\<rfloor>
      in if y - real_of_int f < 1 / 2 then f
         else if 1 / 2 < y - real_of_int f then f + 1
         else if even f then f else f + 1)"

definition double_round :: "real \<Rightarrow> real" where
  "double_round x = (if x = 0 then 0 else ulp x * real_of_int (roundEven (x / ulp x)))"

section \<open>utils/Rectangle\<close>

record Rectangle =
  rect_x :: real
  rect_y :: real
  rect_width :: real
  rect_height :: real

definition left :: "Rectangle \<Rightarrow> real" where
  "left r = rect_x r"

definition right :: "Rectangle \<Rightarrow> real" where
  "right r = rect_x r + rect_width r"

definition top_edge :: "Rectangle \<Rightarrow> real" where
  "top_edge r = rect_y r"

definition bottom :: "Rectangle \<Rightarrow> real" where
  "bottom r = rect_y r + rect_height r"

definition centerX :: "Rectangle \<Rightarrow> real" where
  "centerX r = rect_x r + rect_width r / 2"

definition centerY :: "Rectangle \<Rightarrow> real" where
  "centerY r = rect_y r + rect_height r / 2"

definition intersects :: "Rectangle \<Rightarrow> Rectangle \<Rightarrow> bool" where
  "intersects this other =
     (\<not> (right this \<le> left other \<or>
         left this \<ge> right other \<or>
         bottom this \<le> top_edge other \<or>
         top_edge this \<ge> bottom other))"

definition contains :: "Rectangle \<Rightarrow> real \<Rightarrow> real \<Rightarrow> bool" where
  "contains this px py =
     (px \<ge> left this \<and> px \<le> right this \<and> py \<ge> top_edge this \<and> py \<le> bottom this)"

text \<open>The object \<^verbatim>\<open>{ x: overlapX, y: overlapY }\<close> is the pair \<open>(overlapX, overlapY)\<close>.\<close>

definition overlaps :: "Rectangle \<Rightarrow> Rectangle \<Rightarrow> real \<times> real" where
  "overlaps this other =
     (let overlapX = min (right this - left other) (right other - left this);
          overlapY = min (bottom this - top_edge other) (bottom other - top_edge this)
      in (overlapX, overlapY))"

section \<open>GameState\<close>

text \<open>
  \<^verbatim>\<open>localStorage\<close> is part of the state: \<open>stored\<close> is the record saved under the key
  \<^verbatim>\<open>nexus-platformer-save\<close> (the high score and the achievements), and \<open>storageWorks\<close>
  says whether \<^verbatim>\<open>setItem\<close> succeeds; when it throws, the \<^verbatim>\<open>catch\<close> only logs.
  The achievements \<^verbatim>\<open>Set\<close> keeps insertion order, so it is a list without duplicates.
\<close>

record GameState =
  score :: int
  lives :: int
  currentLevel :: int
  highScore :: int
  achievements :: "string list"
  stored :: "(int \<times> string list) option"
  storageWorks :: bool

definition saveToStorage :: "GameState \<Rightarrow> GameState" where
  "saveToStorage g =
     (if storageWorks g then g\<lparr>stored := Some (highScore g, achievements g)\<rparr> else g)"

definition unlock :: "int \<Rightarrow> string \<Rightarrow> GameState \<Rightarrow> GameState" where
  "unlock threshold name g =
     (if score g \<ge> threshold \<and> name \<notin> set (achievements g)
      then g\<lparr>achievements := achievements g @ [name]\<rparr> else g)"

definition checkScoreAchievements :: "GameState \<Rightarrow> GameState" where
  "checkScoreAchievements g = unlock 50000 ''score_50k'' (unlock 10000 ''score_10k'' g)"

definition addScore :: "int \<Rightarrow> GameState \<Rightarrow> GameState" where
  "addScore points g =
     (let g1 = g\<lparr>score := score g + points\<rparr>;
          g2 = (if score g1 > highScore g1
                then saveToStorage (g1\<lparr>highScore := score g1\<rparr>) else g1)
      in checkScoreAchievements g2)"

definition loseLife :: "GameState \<Rightarrow> GameState" where
  "loseLife g = g\<lparr>lives := max 0 (lives g - 1)\<rparr>"

definition gainLife :: "GameState \<Rightarrow> GameState" where
  "gainLife g = g\<lparr>lives := min 9 (lives g + 1)\<rparr>"

definition unlockLevel :: "int \<Rightarrow> string \<Rightarrow> GameState \<Rightarrow> GameState" where
  "unlockLevel threshold name g =
     (if currentLevel g \<ge> threshold \<and> name \<notin> set (achievements g)
      then g\<lparr>achievements := achievements g @ [name]\<rparr> else g)"

definition checkLevelAchievements :: "GameState \<Rightarrow> GameState" where
  "checkLevelAchievements g = unlockLevel 10 ''level_10'' (unlockLevel 5 ''level_5'' g)"

definition nextLevel :: "GameState \<Rightarrow> GameState" where
  "nextLevel g =
     (let g1 = g\<lparr>currentLevel := currentLevel g + 1\<rparr>;
          g2 = addScore (1000 * currentLevel g1) g1
      in checkLevelAchievements g2)"

definition reset :: "GameState \<Rightarrow> GameState" where
  "reset g = g\<lparr>score := 0, lives := 3, currentLevel := 1\<rparr>"

text \<open>
  The constructor: the field initialisers, then \<^verbatim>\<open>loadFromStorage\<close>, which takes the
  high score and the achievements of a saved record (\<^verbatim>\<open>data.highScore || 0\<close> is the
  saved number itself, 0 included; the \<^verbatim>\<open>Set\<close> keeps the first occurrence of each name).
  \<open>None\<close> stands for no saved record and for one that cannot be read.
\<close>

definition newGameState :: "(int \<times> string list) option \<Rightarrow> bool \<Rightarrow> GameState" where
  "newGameState saved works =
     (let g = \<lparr>score = 0, lives = 3, currentLevel = 1, highScore = 0, achievements = [],
               stored = saved, storageWorks = works\<rparr>
      in case saved of
           None \<Rightarrow> g
         | Some (h, a) \<Rightarrow> g\<lparr>highScore := h, achievements := rev (remdups (rev a))\<rparr>)"

text \<open>The calls that a client can make on a GameState, and a run of them.\<close>

datatype GameOp = AddScore int | LoseLife | GainLife | NextLevel | Reset

fun applyGameOp :: "GameOp \<Rightarrow> GameState \<Rightarrow> GameState" where
  "applyGameOp (AddScore n) g = addScore n g"
| "applyGameOp LoseLife g = loseLife g"
| "applyGameOp GainLife g = gainLife g"
| "applyGameOp NextLevel g = nextLevel g"
| "applyGameOp Reset g = reset g"

definition runGameOps :: "GameOp list \<Rightarrow> GameState \<Rightarrow> GameState" where
  "runGameOps ops g = fold applyGameOp ops g"

section \<open>utils/Vector2\<close>

text \<open>
  Modelled from the spec: \<^verbatim>\<open>utils/Vector2\<close> is not among the sources. The spec gives it as
  a pair \<^verbatim>\<open>{x, y}\<close> of numbers with component mutation; Player reads and writes the two
  components and calls \<^verbatim>\<open>set(x, y)\<close>.
\<close>

record Vector2 =
  vec_x :: real
  vec_y :: real

definition Vector2_set :: "real \<Rightarrow> real \<Rightarrow> Vector2 \<Rightarrow> Vector2" where
  "Vector2_set a b v = v\<lparr>vec_x := a, vec_y := b\<rparr>"

section \<open>entities/Platform\<close>

datatype PlatformType = Ground | Floating | Moving | Breakable

record Platform =
  plat_x :: real
  plat_y :: real
  plat_width :: real
  plat_height :: real
  plat_type :: PlatformType
  plat_originalX :: real
  plat_originalY :: real
  plat_moveSpeed :: real
  plat_moveRange :: real
  plat_moveDirection :: real
  plat_moveTime :: real

definition newPlatform :: "real \<Rightarrow> real \<Rightarrow> real \<Rightarrow> real \<Rightarrow> PlatformType \<Rightarrow> Platform" where
  "newPlatform px py w h t =
     \<lparr>plat_x = px, plat_y = py, plat_width = w, plat_height = h, plat_type = t,
      plat_originalX = px, plat_originalY = py, plat_moveSpeed = 50, plat_moveRange = 100,
      plat_moveDirection = 1, plat_moveTime = 0\<rparr>"

definition Platform_update :: "real \<Rightarrow> Platform \<Rightarrow> Platform" where
  "Platform_update deltaTime pl =
     (if plat_type pl = Moving
      then let t = plat_moveTime pl + deltaTime;
               offset = sin (t * 2) * plat_moveRange pl
           in pl\<lparr>plat_moveTime := t, plat_x := plat_originalX pl + offset\<rparr>
      else pl)"

definition Platform_getBounds :: "Platform \<Rightarrow> Rectangle" where
  "Platform_getBounds pl =
     \<lparr>rect_x = plat_x pl, rect_y = plat_y pl, rect_width = plat_width pl,
      rect_height = plat_height pl\<rparr>"

section \<open>entities/Collectible and entities/PowerUp\<close>

text \<open>
  The constructors and the bounds; the animation of the two (rotation, bobbing, pulsing)
  moves no position that the level generator or the player reads.
\<close>

datatype CollectibleType = Coin | Gem | Star

record Collectible =
  col_x :: real
  col_y :: real
  col_width :: real
  col_height :: real
  col_type :: CollectibleType
  col_value :: int
  col_color :: string
  col_animationFrame :: int
  col_animationTimer :: real
  col_rotationAngle :: real
  col_bobOffset :: real
  col_bobTimer :: real

definition newCollectible :: "real \<Rightarrow> real \<Rightarrow> CollectibleType \<Rightarrow> Collectible" where
  "newCollectible cx cy t =
     (let c = \<lparr>col_x = cx, col_y = cy, col_width = 0, col_height = 0, col_type = t,
               col_value = 0, col_color = [], col_animationFrame = 0, col_animationTimer = 0,
               col_rotationAngle = 0, col_bobOffset = 0, col_bobTimer = 0\<rparr>
      in case t of
           Coin \<Rightarrow> c\<lparr>col_width := 16, col_height := 16, col_value := 100,
                     col_color := ''#FFD700''\<rparr>
         | Gem \<Rightarrow> c\<lparr>col_width := 20, col_height := 20, col_value := 500,
                    col_color := ''#FF69B4''\<rparr>
         | Star \<Rightarrow> c\<lparr>col_width := 24, col_height := 24, col_value := 1000,
                     col_color := ''#00CED1''\<rparr>)"

definition Collectible_getBounds :: "Collectible \<Rightarrow> Rectangle" where
  "Collectible_getBounds c =
     \<lparr>rect_x = col_x c, rect_y = col_y c + col_bobOffset c, rect_width = col_width c,
      rect_height = col_height c\<rparr>"

datatype PowerUpType = Speed | Jump | Size | Invincible

record PowerUp =
  pu_x :: real
  pu_y :: real
  pu_width :: real
  pu_height :: real
  pu_type :: PowerUpType
  pu_value :: int
  pu_color :: string
  pu_animationTimer :: real
  pu_pulseScale :: real
  pu_rotationAngle :: real

definition newPowerUp :: "real \<Rightarrow> real \<Rightarrow> PowerUpType \<Rightarrow> PowerUp" where
  "newPowerUp ux uy t =
     \<lparr>pu_x = ux, pu_y = uy, pu_width = 32, pu_height = 32, pu_type = t, pu_value = 200,
      pu_color = (case t of Speed \<Rightarrow> ''#00FF00'' | Jump \<Rightarrow> ''#FFFF00''
                  | Size \<Rightarrow> ''#FF8800'' | Invincible \<Rightarrow> ''#FF00FF''),
      pu_animationTimer = 0, pu_pulseScale = 1, pu_rotationAngle = 0\<rparr>"

definition PowerUp_getBounds :: "PowerUp \<Rightarrow> Rectangle" where
  "PowerUp_getBounds u =
     \<lparr>rect_x = pu_x u, rect_y = pu_y u, rect_width = pu_width u, rect_height = pu_height u\<rparr>"

section \<open>entities/Enemy: data\<close>

datatype EnemyType = Goomba | Koopa | Spiky | Flying

record Enemy =
  enemy_x :: real
  enemy_y :: real
  enemy_width :: real
  enemy_height :: real
  enemy_type :: EnemyType
  enemy_velocity :: Vector2
  enemy_speed :: real
  enemy_direction :: real
  enemy_health :: int
  enemy_gravity :: real
  enemy_isGrounded :: bool
  enemy_animationFrame :: int
  enemy_animationTimer :: real
  enemy_flyingOffset :: real
  enemy_flyingTimer :: real

definition newEnemy :: "real \<Rightarrow> real \<Rightarrow> EnemyType \<Rightarrow> Enemy" where
  "newEnemy ex ey t =
     (let e = \<lparr>enemy_x = ex, enemy_y = ey, enemy_width = 0, enemy_height = 0, enemy_type = t,
               enemy_velocity = \<lparr>vec_x = 0, vec_y = 0\<rparr>, enemy_speed = 60,
               enemy_direction = - 1, enemy_health = 1, enemy_gravity = 600,
               enemy_isGrounded = False, enemy_animationFrame = 0, enemy_animationTimer = 0,
               enemy_flyingOffset = 0, enemy_flyingTimer = 0\<rparr>
      in case t of
           Goomba \<Rightarrow> e\<lparr>enemy_width := 24, enemy_height := 24, enemy_speed := 60\<rparr>
         | Koopa \<Rightarrow> e\<lparr>enemy_width := 28, enemy_height := 32, enemy_speed := 80,
                      enemy_health := 2\<rparr>
         | Spiky \<Rightarrow> e\<lparr>enemy_width := 26, enemy_height := 26, enemy_speed := 40,
                      enemy_health := 2\<rparr>
         | Flying \<Rightarrow> e\<lparr>enemy_width := 30, enemy_height := 24, enemy_speed := 100,
                       enemy_health := 1\<rparr>)"

section \<open>Level\<close>

text \<open>
  The background gradient only feeds the renderer and is left out. \<^verbatim>\<open>Math.random()\<close> is
  a source of draws: the sequence of the numbers it will return, from which each call takes
  the first. The level number is an integer (GameState counts levels from 1).
\<close>

record Level =
  level_width :: real
  level_height :: real
  level_platforms :: "Platform list"
  level_enemies :: "Enemy list"
  level_collectibles :: "Collectible list"
  level_powerUps :: "PowerUp list"
  level_levelNumber :: int

type_synonym Rng = "nat \<Rightarrow> real"

definition Math_random :: "Rng \<Rightarrow> real \<times> Rng" where
  "Math_random rng = (rng 0, \<lambda>n. rng (Suc n))"

definition pushPlatform :: "Platform \<Rightarrow> Level \<Rightarrow> Level" where
  "pushPlatform pl lv = lv\<lparr>level_platforms := level_platforms lv @ [pl]\<rparr>"

function groundLoop :: "real \<Rightarrow> Level \<Rightarrow> Level" where
  "groundLoop gx lv =
     (if gx < level_width lv
      then groundLoop (gx + 128)
             (pushPlatform (newPlatform gx (level_height lv - 64) 128 64 Ground) lv)
      else lv)"
  by pat_completeness auto
termination
  by (relation "measure (\<lambda>(gx, lv). nat \<lceil>level_width lv - gx\<rceil>)")
     (auto simp: pushPlatform_def, linarith)

function floatingLoop :: "int \<Rightarrow> int \<Rightarrow> Level \<Rightarrow> Rng \<Rightarrow> Level \<times> Rng" where
  "floatingLoop i platformCount lv rng =
     (if i < platformCount
      then let fx = 200 + (real_of_int i * (level_width lv - 400)) / real_of_int platformCount;
               (r1, rng1) = Math_random rng;
               fy = 200 + sin (real_of_int i * 0.5) * 100 + r1 * 100;
               (r2, rng2) = Math_random rng1;
               w = 96 + r2 * 64;
               h = 24
           in floatingLoop (i + 1) platformCount
                (pushPlatform (newPlatform fx fy w h Floating) lv) rng2
      else (lv, rng))"
  by pat_completeness auto
termination
  by (relation "measure (\<lambda>(i, platformCount, lv, rng). nat (platformCount - i))") auto

function movingLoop :: "int \<Rightarrow> Level \<Rightarrow> Level" where
  "movingLoop i lv =
     (if i < 2
      then let mx = 600 + real_of_int i * 400;
               my = 300 + real_of_int i * 50
           in movingLoop (i + 1) (pushPlatform (newPlatform mx my 128 24 Moving) lv)
      else lv)"
  by pat_completeness auto
termination
  by (relation "measure (\<lambda>(i, lv). nat (2 - i))") auto

definition generatePlatforms :: "Level \<Rightarrow> Rng \<Rightarrow> Level \<times> Rng" where
  "generatePlatforms lv rng =
     (let lv1 = groundLoop 0 lv;
          difficulty = min (level_levelNumber lv1) 5;
          platformCount = 8 + difficulty * 2;
          (lv2, rng2) = floatingLoop 0 platformCount lv1 rng;
          lv3 = (if level_levelNumber lv2 \<ge> 3 then movingLoop 0 lv2 else lv2)
      in (lv3, rng2))"

text \<open>
  \<^verbatim>\<open>types[Math.floor(Math.random() * types.length)]\<close>: a draw of \<^verbatim>\<open>Math.random()\<close> lies in
  \<open>[0, 1)\<close>, so the index is within the array.
\<close>

definition pick :: "'a list \<Rightarrow> real \<Rightarrow> 'a" where
  "pick types r = types ! nat \<lfloor>r * real (length types)\<rfloor>"

function enemyLoop :: "int \<Rightarrow> int \<Rightarrow> Level \<Rightarrow> Rng \<Rightarrow> Level \<times> Rng" where
  "enemyLoop i enemyCount lv rng =
     (if i < enemyCount
      then let ex = 300 + (real_of_int i * (level_width lv - 600)) / real_of_int enemyCount;
               ey = level_height lv - 128;
               types = [Goomba, Koopa]
                       @ (if level_levelNumber lv \<ge> 2 then [Spiky] else [])
                       @ (if level_levelNumber lv \<ge> 4 then [Flying] else []);
               (r, rng1) = Math_random rng;
               t = pick types r
           in enemyLoop (i + 1) enemyCount
                (lv\<lparr>level_enemies := level_enemies lv @ [newEnemy ex ey t]\<rparr>) rng1
      else (lv, rng))"
  by pat_completeness auto
termination
  by (relation "measure (\<lambda>(i, enemyCount, lv, rng). nat (enemyCount - i))") auto

definition generateEnemies :: "Level \<Rightarrow> Rng \<Rightarrow> Level \<times> Rng" where
  "generateEnemies lv rng = enemyLoop 0 (3 + level_levelNumber lv) lv rng"

definition insidePlatform :: "real \<Rightarrow> real \<Rightarrow> Platform \<Rightarrow> bool" where
  "insidePlatform px py platform =
     (px \<ge> plat_x platform \<and> px \<le> plat_x platform + plat_width platform \<and>
      py \<ge> plat_y platform \<and> py \<le> plat_y platform + plat_height platform)"

function collectibleLoop :: "int \<Rightarrow> int \<Rightarrow> Level \<Rightarrow> Rng \<Rightarrow> Level \<times> Rng" where
  "collectibleLoop i collectibleCount lv rng =
     (if i < collectibleCount
      then let (r1, rng1) = Math_random rng;
               cx = 150 + r1 * (level_width lv - 300);
               (r2, rng2) = Math_random rng1;
               cy = 100 + r2 * (level_height lv - 200);
               isValidPosition = (\<not> list_ex (insidePlatform cx cy) (level_platforms lv))
           in if isValidPosition
              then let (r3, rng3) = Math_random rng2;
                       t = (if r3 < 0.7 then Coin else Gem)
                   in collectibleLoop (i + 1) collectibleCount
                        (lv\<lparr>level_collectibles :=
                              level_collectibles lv @ [newCollectible cx cy t]\<rparr>) rng3
              else collectibleLoop (i + 1) collectibleCount lv rng2
      else (lv, rng))"
  by pat_completeness auto
termination
  by (relation "measure (\<lambda>(i, collectibleCount, lv, rng). nat (collectibleCount - i))") auto

definition generateCollectibles :: "Level \<Rightarrow> Rng \<Rightarrow> Level \<times> Rng" where
  "generateCollectibles lv rng = collectibleLoop 0 (15 + level_levelNumber lv * 3) lv rng"

definition js_floor_half :: "int \<Rightarrow> int" where
  "js_floor_half n = \<lfloor>real_of_int n / 2\<rfloor>"

function powerUpLoop :: "int \<Rightarrow> int \<Rightarrow> Level \<Rightarrow> Rng \<Rightarrow> Level \<times> Rng" where
  "powerUpLoop i powerUpCount lv rng =
     (if i < powerUpCount
      then let ux = 400 + (real_of_int i * (level_width lv - 800)) / real_of_int powerUpCount;
               (r1, rng1) = Math_random rng;
               uy = 200 + r1 * 200;
               types = [Speed, Jump, Size, Invincible];
               (r2, rng2) = Math_random rng1;
               t = pick types r2
           in powerUpLoop (i + 1) powerUpCount
                (lv\<lparr>level_powerUps := level_powerUps lv @ [newPowerUp ux uy t]\<rparr>) rng2
      else (lv, rng))"
  by pat_completeness auto
termination
  by (relation "measure (\<lambda>(i, powerUpCount, lv, rng). nat (powerUpCount - i))") auto

definition generatePowerUps :: "Level \<Rightarrow> Rng \<Rightarrow> Level \<times> Rng" where
  "generatePowerUps lv rng =
     powerUpLoop 0 (2 + js_floor_half (level_levelNumber lv)) lv rng"

definition generateLevel :: "Level \<Rightarrow> Rng \<Rightarrow> Level \<times> Rng" where
  "generateLevel lv rng =
     (let lv0 = lv\<lparr>level_platforms := [], level_enemies := [], level_collectibles := [],
                   level_powerUps := []\<rparr>;
          (lv1, rng1) = generatePlatforms lv0 rng;
          (lv2, rng2) = generateEnemies lv1 rng1;
          (lv3, rng3) = generateCollectibles lv2 rng2
      in generatePowerUps lv3 rng3)"

definition newLevel :: "int \<Rightarrow> Rng \<Rightarrow> Level \<times> Rng" where
  "newLevel levelNumber rng =
     generateLevel
       \<lparr>level_width = 2048, level_height = 576, level_platforms = [], level_enemies = [],
        level_collectibles = [], level_powerUps = [], level_levelNumber = levelNumber\<rparr> rng"

text \<open>The platforms of one type, and a row of platforms that covers \<open>[a, b]\<close> edge to edge.\<close>

definition platformsOfType :: "PlatformType \<Rightarrow> Level \<Rightarrow> Platform list" where
  "platformsOfType t lv = filter (\<lambda>pl. plat_type pl = t) (level_platforms lv)"

fun tiles :: "Platform list \<Rightarrow> real \<Rightarrow> real \<Rightarrow> bool" where
  "tiles [] a b = (a = b)"
| "tiles (pl # pls) a b = (plat_x pl = a \<and> 0 < plat_width pl \<and> tiles pls (a + plat_width pl) b)"

section \<open>entities/Enemy: behaviour\<close>

definition Enemy_getBounds :: "Enemy \<Rightarrow> Rectangle" where
  "Enemy_getBounds e =
     \<lparr>rect_x = enemy_x e, rect_y = enemy_y e, rect_width = enemy_width e,
      rect_height = enemy_height e\<rparr>"

text \<open>
  The body of the \<^verbatim>\<open>forEach\<close> over the platforms. The bounds of the enemy are taken once,
  before the loop, so they are a parameter.
\<close>

definition Enemy_resolve :: "Rectangle \<Rightarrow> Platform \<Rightarrow> Enemy \<Rightarrow> Enemy" where
  "Enemy_resolve enemyBounds platform e =
     (let platformBounds = Platform_getBounds platform
      in if intersects enemyBounds platformBounds
         then let overlapX = min (right enemyBounds - left platformBounds)
                                 (right platformBounds - left enemyBounds);
                  overlapY = min (bottom enemyBounds - top_edge platformBounds)
                                 (bottom platformBounds - top_edge enemyBounds)
              in if overlapX < overlapY
                 then let e1 = e\<lparr>enemy_direction := enemy_direction e * (- 1)\<rparr>
                      in if centerX enemyBounds < centerX platformBounds
                         then e1\<lparr>enemy_x := left platformBounds - enemy_width e1\<rparr>
                         else e1\<lparr>enemy_x := right platformBounds\<rparr>
                 else if centerY enemyBounds < centerY platformBounds
                      then e\<lparr>enemy_y := top_edge platformBounds - enemy_height e,
                             enemy_velocity := (enemy_velocity e)\<lparr>vec_y := 0\<rparr>,
                             enemy_isGrounded := True\<rparr>
                      else e
         else e)"

definition Enemy_checkPlatformCollisions :: "Level \<Rightarrow> Enemy \<Rightarrow> Enemy" where
  "Enemy_checkPlatformCollisions level e =
     (let enemyBounds = Enemy_getBounds e
      in fold (Enemy_resolve enemyBounds) (level_platforms level)
           (e\<lparr>enemy_isGrounded := False\<rparr>))"

definition Enemy_checkEdgesAndWalls :: "Level \<Rightarrow> Enemy \<Rightarrow> Enemy" where
  "Enemy_checkEdgesAndWalls level e =
     (if enemy_isGrounded e
      then let futureX = enemy_x e + enemy_direction e * enemy_width e;
               futureY = enemy_y e + enemy_height e + 10;
               platformBelow = list_ex (insidePlatform futureX futureY) (level_platforms level)
           in if \<not> platformBelow then e\<lparr>enemy_direction := enemy_direction e * (- 1)\<rparr> else e
      else e)"

definition Enemy_updateGroundMovement :: "real \<Rightarrow> Level \<Rightarrow> Enemy \<Rightarrow> Enemy" where
  "Enemy_updateGroundMovement deltaTime level e =
     (let e1 = e\<lparr>enemy_velocity := (enemy_velocity e)\<lparr>vec_x := enemy_direction e * enemy_speed e\<rparr>\<rparr>;
          e2 = e1\<lparr>enemy_velocity :=
                    (enemy_velocity e1)\<lparr>vec_y := vec_y (enemy_velocity e1)
                                                  + enemy_gravity e1 * deltaTime\<rparr>\<rparr>;
          e3 = e2\<lparr>enemy_x := enemy_x e2 + vec_x (enemy_velocity e2) * deltaTime,
                  enemy_y := enemy_y e2 + vec_y (enemy_velocity e2) * deltaTime\<rparr>
      in Enemy_checkEdgesAndWalls level (Enemy_checkPlatformCollisions level e3))"

definition Enemy_updateFlyingMovement :: "real \<Rightarrow> Enemy \<Rightarrow> Enemy" where
  "Enemy_updateFlyingMovement deltaTime e =
     (let t = enemy_flyingTimer e + deltaTime
      in e\<lparr>enemy_flyingTimer := t,
           enemy_flyingOffset := sin (t * 3) * 50,
           enemy_x := enemy_x e + enemy_direction e * enemy_speed e * deltaTime,
           enemy_y := enemy_y e + sin (t * 4) * 30 * deltaTime\<rparr>)"

definition Enemy_updateMovement :: "real \<Rightarrow> Level \<Rightarrow> Enemy \<Rightarrow> Enemy" where
  "Enemy_updateMovement deltaTime level e =
     (case enemy_type e of
        Goomba \<Rightarrow> Enemy_updateGroundMovement deltaTime level e
      | Koopa \<Rightarrow> Enemy_updateGroundMovement deltaTime level e
      | Spiky \<Rightarrow> Enemy_updateGroundMovement deltaTime level e
      | Flying \<Rightarrow> Enemy_updateFlyingMovement deltaTime e)"

definition Enemy_updateAnimation :: "real \<Rightarrow> Enemy \<Rightarrow> Enemy" where
  "Enemy_updateAnimation deltaTime e =
     (let t = enemy_animationTimer e + deltaTime
      in if t \<ge> 0.2
         then e\<lparr>enemy_animationFrame := (enemy_animationFrame e + 1) mod 2,
                enemy_animationTimer := 0\<rparr>
         else e\<lparr>enemy_animationTimer := t\<rparr>)"

definition Enemy_checkBounds :: "Level \<Rightarrow> Enemy \<Rightarrow> Enemy" where
  "Enemy_checkBounds level e =
     (let e1 = (if enemy_x e < 0 \<or> enemy_x e > level_width level - enemy_width e
                then e\<lparr>enemy_direction := enemy_direction e * (- 1)\<rparr> else e)
      in if enemy_y e1 > level_height level + 100 then e1\<lparr>enemy_health := 0\<rparr> else e1)"

definition Enemy_update :: "real \<Rightarrow> Level \<Rightarrow> Enemy \<Rightarrow> Enemy" where
  "Enemy_update deltaTime level e =
     Enemy_checkBounds level (Enemy_updateAnimation deltaTime (Enemy_updateMovement deltaTime level e))"

definition Enemy_takeDamage :: "Enemy \<Rightarrow> Enemy" where
  "Enemy_takeDamage e = e\<lparr>enemy_health := enemy_health e - 1\<rparr>"

definition Enemy_isAlive :: "Enemy \<Rightarrow> bool" where
  "Enemy_isAlive e = (enemy_health e > 0)"

section \<open>entities/Player\<close>

text \<open>
  \<open>powerUpTimers\<close> is a \<^verbatim>\<open>Map\<close>, which iterates in insertion order: an association list
  whose keys are distinct, with \<^const>\<open>AList.update\<close> for \<^verbatim>\<open>set\<close> (in place for a key that
  is present, at the end for a new one) and \<^const>\<open>AList.delete\<close> for \<^verbatim>\<open>delete\<close>.
  \<open>basePowerValues\<close> is only ever looked up by key; \<^verbatim>\<open>get(k)!\<close> is \<open>the (m k)\<close>, the
  constructor having stored the three keys that are read.
  The input manager is seen through \<^verbatim>\<open>isPressed\<close> alone: a predicate on key names.
\<close>

record Player =
  player_x :: real
  player_y :: real
  player_velocity :: Vector2
  player_width :: real
  player_height :: real
  player_speed :: real
  player_jumpPower :: real
  player_gravity :: real
  player_friction :: real
  player_maxSpeed :: real
  player_isGrounded :: bool
  player_isRunning :: bool
  player_facingRight :: bool
  player_invulnerabilityTimer :: real
  player_animationFrame :: int
  player_animationTimer :: real
  player_animationSpeed :: real
  player_powerUpTimers :: "(PowerUpType \<times> real) list"
  player_basePowerValues :: "string \<rightharpoonup> real"

type_synonym InputManager = "string \<Rightarrow> bool"

definition newPlayer :: "real \<Rightarrow> real \<Rightarrow> Player" where
  "newPlayer px py =
     \<lparr>player_x = px, player_y = py, player_velocity = \<lparr>vec_x = 0, vec_y = 0\<rparr>,
      player_width = 32, player_height = 48, player_speed = 200, player_jumpPower = 400,
      player_gravity = 1200, player_friction = 0.8, player_maxSpeed = 300,
      player_isGrounded = False, player_isRunning = False, player_facingRight = True,
      player_invulnerabilityTimer = 0, player_animationFrame = 0, player_animationTimer = 0,
      player_animationSpeed = 0.1, player_powerUpTimers = [],
      player_basePowerValues =
        [''speed'' \<mapsto> 200, ''jumpPower'' \<mapsto> 400, ''maxSpeed'' \<mapsto> 300]\<rparr>"

definition set_vx :: "real \<Rightarrow> Player \<Rightarrow> Player" where
  "set_vx v p = p\<lparr>player_velocity := (player_velocity p)\<lparr>vec_x := v\<rparr>\<rparr>"

definition set_vy :: "real \<Rightarrow> Player \<Rightarrow> Player" where
  "set_vy v p = p\<lparr>player_velocity := (player_velocity p)\<lparr>vec_y := v\<rparr>\<rparr>"

definition Player_handleInput :: "InputManager \<Rightarrow> real \<Rightarrow> Player \<Rightarrow> Player" where
  "Player_handleInput isPressed deltaTime p =
     (let p1 = (if isPressed ''left'' \<or> isPressed ''a''
                then (set_vx (vec_x (player_velocity p) - player_speed p * deltaTime) p)
                       \<lparr>player_facingRight := False, player_isRunning := True\<rparr>
                else if isPressed ''right'' \<or> isPressed ''d''
                then (set_vx (vec_x (player_velocity p) + player_speed p * deltaTime) p)
                       \<lparr>player_facingRight := True, player_isRunning := True\<rparr>
                else p\<lparr>player_isRunning := False\<rparr>);
          runMultiplier = (if isPressed ''shift'' \<and> player_isRunning p1 then 1.5 else 1);
          p2 = set_vx (vec_x (player_velocity p1) * runMultiplier) p1;
          p3 = (if (isPressed ''space'' \<or> isPressed ''up'' \<or> isPressed ''w'')
                   \<and> player_isGrounded p2
                then (set_vy (- player_jumpPower p2) p2)\<lparr>player_isGrounded := False\<rparr>
                else p2);
          p4 = set_vx (vec_x (player_velocity p3) * player_friction p3) p3
      in set_vx (max (- player_maxSpeed p4) (min (player_maxSpeed p4) (vec_x (player_velocity p4)))) p4)"

definition Player_getBounds :: "Player \<Rightarrow> Rectangle" where
  "Player_getBounds p =
     \<lparr>rect_x = player_x p, rect_y = player_y p, rect_width = player_width p,
      rect_height = player_height p\<rparr>"

text \<open>
  The body of the \<^verbatim>\<open>forEach\<close> over the platforms; \<open>playerBounds\<close> is taken once, before
  the loop.
\<close>

definition Player_resolve :: "Rectangle \<Rightarrow> Platform \<Rightarrow> Player \<Rightarrow> Player" where
  "Player_resolve playerBounds platform p =
     (let platformBounds = Platform_getBounds platform
      in if intersects playerBounds platformBounds
         then let overlapX = min (right playerBounds - left platformBounds)
                                 (right platformBounds - left playerBounds);
                  overlapY = min (bottom playerBounds - top_edge platformBounds)
                                 (bottom platformBounds - top_edge playerBounds)
              in if overlapX < overlapY
                 then set_vx 0
                        (if centerX playerBounds < centerX platformBounds
                         then p\<lparr>player_x := left platformBounds - player_width p\<rparr>
                         else p\<lparr>player_x := right platformBounds\<rparr>)
                 else if centerY playerBounds < centerY platformBounds
                      then (set_vy 0 (p\<lparr>player_y := top_edge platformBounds - player_height p\<rparr>))
                             \<lparr>player_isGrounded := True\<rparr>
                      else set_vy 0 (p\<lparr>player_y := bottom platformBounds\<rparr>)
         else p)"

definition Player_checkPlatformCollisions :: "Level \<Rightarrow> Player \<Rightarrow> Player" where
  "Player_checkPlatformCollisions level p =
     (let playerBounds = Player_getBounds p
      in fold (Player_resolve playerBounds) (level_platforms level)
           (p\<lparr>player_isGrounded := False\<rparr>))"

definition Player_respawn :: "Player \<Rightarrow> Player" where
  "Player_respawn p =
     p\<lparr>player_x := 100, player_y := 400,
       player_velocity := Vector2_set 0 0 (player_velocity p)\<rparr>"

definition Player_updatePhysics :: "real \<Rightarrow> Level \<Rightarrow> Player \<Rightarrow> Player" where
  "Player_updatePhysics deltaTime level p =
     (let p1 = set_vy (vec_y (player_velocity p) + player_gravity p * deltaTime) p;
          p2 = p1\<lparr>player_x := player_x p1 + vec_x (player_velocity p1) * deltaTime,
                  player_y := player_y p1 + vec_y (player_velocity p1) * deltaTime\<rparr>;
          p3 = Player_checkPlatformCollisions level p2;
          p4 = p3\<lparr>player_x := max 0 (min (level_width level - player_width p3) (player_x p3))\<rparr>
      in if player_y p4 > level_height level + 100 then Player_respawn p4 else p4)"

definition Player_removePowerUp :: "PowerUpType \<Rightarrow> Player \<Rightarrow> Player" where
  "Player_removePowerUp t p =
     (case t of
        Speed \<Rightarrow> p\<lparr>player_speed := the (player_basePowerValues p ''speed''),
                    player_maxSpeed := the (player_basePowerValues p ''maxSpeed'')\<rparr>
      | Jump \<Rightarrow> p\<lparr>player_jumpPower := the (player_basePowerValues p ''jumpPower'')\<rparr>
      | Size \<Rightarrow> p\<lparr>player_width := 32, player_height := 48\<rparr>
      | Invincible \<Rightarrow> p)"

text \<open>
  One entry of the \<^verbatim>\<open>forEach\<close> over \<open>powerUpTimers\<close>. The callback only deletes or
  overwrites the entry it is called on, so the loop visits the entries the map had when
  it started, in order. \<^verbatim>\<open>timer - deltaTime\<close> is the binary64 difference.
\<close>

definition powerUpTick :: "real \<Rightarrow> PowerUpType \<times> real \<Rightarrow> Player \<Rightarrow> Player" where
  "powerUpTick deltaTime entry p =
     (let t = fst entry;
          timer = snd entry;
          newTimer = double_round (timer - deltaTime)
      in if newTimer \<le> 0
         then let p1 = Player_removePowerUp t p
              in p1\<lparr>player_powerUpTimers := AList.delete t (player_powerUpTimers p1)\<rparr>
         else p\<lparr>player_powerUpTimers := AList.update t newTimer (player_powerUpTimers p)\<rparr>)"

definition Player_updatePowerUps :: "real \<Rightarrow> Player \<Rightarrow> Player" where
  "Player_updatePowerUps deltaTime p = fold (powerUpTick deltaTime) (player_powerUpTimers p) p"

definition Player_updateAnimation :: "real \<Rightarrow> Player \<Rightarrow> Player" where
  "Player_updateAnimation deltaTime p =
     (if player_isRunning p \<and> player_isGrounded p
      then let t = player_animationTimer p + deltaTime
           in if t \<ge> player_animationSpeed p
              then p\<lparr>player_animationFrame := (player_animationFrame p + 1) mod 4,
                     player_animationTimer := 0\<rparr>
              else p\<lparr>player_animationTimer := t\<rparr>
      else p\<lparr>player_animationFrame := 0\<rparr>)"

definition Player_updateInvulnerability :: "real \<Rightarrow> Player \<Rightarrow> Player" where
  "Player_updateInvulnerability deltaTime p =
     (if player_invulnerabilityTimer p > 0
      then p\<lparr>player_invulnerabilityTimer := player_invulnerabilityTimer p - deltaTime\<rparr>
      else p)"

definition Player_update :: "real \<Rightarrow> InputManager \<Rightarrow> Level \<Rightarrow> Player \<Rightarrow> Player" where
  "Player_update deltaTime input level p =
     Player_updateInvulnerability deltaTime
       (Player_updateAnimation deltaTime
         (Player_updatePowerUps deltaTime
           (Player_updatePhysics deltaTime level
             (Player_handleInput input deltaTime p))))"

definition Player_applyPowerUp :: "PowerUpType \<Rightarrow> Player \<Rightarrow> Player" where
  "Player_applyPowerUp t p =
     (let p1 = p\<lparr>player_powerUpTimers := AList.update t 10 (player_powerUpTimers p)\<rparr>
      in case t of
           Speed \<Rightarrow> p1\<lparr>player_speed := the (player_basePowerValues p1 ''speed'') * 1.5,
                        player_maxSpeed := the (player_basePowerValues p1 ''maxSpeed'') * 1.5\<rparr>
         | Jump \<Rightarrow> p1\<lparr>player_jumpPower := the (player_basePowerValues p1 ''jumpPower'') * 1.3\<rparr>
         | Size \<Rightarrow> p1\<lparr>player_width := 24, player_height := 36\<rparr>
         | Invincible \<Rightarrow> p1\<lparr>player_invulnerabilityTimer := 10\<rparr>)"

definition Player_isInvulnerable :: "Player \<Rightarrow> bool" where
  "Player_isInvulnerable p =
     (player_invulnerabilityTimer p > 0 \<or> map_of (player_powerUpTimers p) Invincible \<noteq> None)"

definition Player_takeDamage :: "Player \<Rightarrow> Player" where
  "Player_takeDamage p =
     (if \<not> Player_isInvulnerable p
      then set_vy (- 150)
             (set_vx (if player_facingRight p then - 200 else 200)
               (p\<lparr>player_invulnerabilityTimer := 2\<rparr>))
      else p)"

definition Player_bounce :: "Player \<Rightarrow> Player" where
  "Player_bounce p = set_vy (- 200) p"

section \<open>Level generation: draws and passes\<close>

text \<open>The source of draws after \<open>m\<close> calls of \<^verbatim>\<open>Math.random()\<close>.\<close>

definition advance :: "nat \<Rightarrow> Rng \<Rightarrow> Rng" where
  "advance m rng = (\<lambda>k. rng (k + m))"

text \<open>
  The position that one pass of the collectible loop draws, and the level as the constructor
  hands it to \<open>generateLevel\<close>.
\<close>

definition attempt_x :: "Level \<Rightarrow> Rng \<Rightarrow> real" where
  "attempt_x lv rng = 150 + rng 0 * (level_width lv - 300)"

definition attempt_y :: "Level \<Rightarrow> Rng \<Rightarrow> real" where
  "attempt_y lv rng = 100 + rng 1 * (level_height lv - 200)"

definition emptyLevel :: "int \<Rightarrow> Level" where
  "emptyLevel n =
     \<lparr>level_width = 2048, level_height = 576, level_platforms = [], level_enemies = [],
      level_collectibles = [], level_powerUps = [], level_levelNumber = n\<rparr>"

text \<open>
  Placing with skips and no retry, as the specification words it, for comparison with
  \<open>generateCollectibles\<close>: the collectibles that \<open>k\<close> attempts place on given platforms
  in a level of width \<open>w\<close> and height \<open>h\<close>. An attempt draws a position. If the position
  is inside a platform, the attempt places nothing and the next attempt goes on with the
  next draw; otherwise it places a collectible there, whose type takes one more draw.
\<close>

primrec placements :: "nat \<Rightarrow> Platform list \<Rightarrow> real \<Rightarrow> real \<Rightarrow> Rng \<Rightarrow> Collectible list" where
  "placements 0 platforms w h rng = []"
| "placements (Suc k) platforms w h rng =
     (let cx = 150 + rng 0 * (w - 300);
          cy = 100 + rng 1 * (h - 200)
      in if list_ex (insidePlatform cx cy) platforms
         then placements k platforms w h (advance 2 rng)
         else newCollectible cx cy (if rng 2 < 0.7 then Coin else Gem)
              # placements k platforms w h (advance 3 rng))"

section \<open>Comparing the collision methods of Player and Enemy\<close>

text \<open>
  What the two methods both act on: position, size, vertical velocity and the grounded
  flag. \<open>wallContact\<close> and \<open>hitFromBelow\<close> name two of the three branches that the
  bounds \<open>b\<close> of an entity take at a platform.
\<close>

type_synonym Body = "real \<times> real \<times> real \<times> real \<times> real \<times> bool"

definition Player_body :: "Player \<Rightarrow> Body" where
  "Player_body p =
     (player_x p, player_y p, player_width p, player_height p, vec_y (player_velocity p),
      player_isGrounded p)"

definition Enemy_body :: "Enemy \<Rightarrow> Body" where
  "Enemy_body e =
     (enemy_x e, enemy_y e, enemy_width e, enemy_height e, vec_y (enemy_velocity e),
      enemy_isGrounded e)"

definition wallContact :: "Rectangle \<Rightarrow> Platform \<Rightarrow> bool" where
  "wallContact b platform =
     (intersects b (Platform_getBounds platform) \<and>
      fst (overlaps b (Platform_getBounds platform)) < snd (overlaps b (Platform_getBounds platform)))"

definition hitFromBelow :: "Rectangle \<Rightarrow> Platform \<Rightarrow> bool" where
  "hitFromBelow b platform =
     (intersects b (Platform_getBounds platform) \<and>
      \<not> fst (overlaps b (Platform_getBounds platform)) < snd (overlaps b (Platform_getBounds platform)) \<and>
      \<not> centerY b < centerY (Platform_getBounds platform))"

section \<open>Player: runs of calls\<close>

text \<open>
  The calls that the engine makes on a player. \<open>elapsed\<close> is the simulated time of a
  run (the exact sum of the \<open>deltaTime\<close> of its updates) and \<open>updates\<close> the number of
  its updates; \<open>forward\<close> holds of an update whose \<open>deltaTime\<close> is not negative, and
  \<open>engineFrame\<close> of one whose \<open>deltaTime\<close> is also at most 0.016, the cap of the game
  loop. \<open>reapplies k\<close> picks the calls \<^verbatim>\<open>applyPowerUp(k)\<close>, and \<open>restored k\<close> says that
  the stat of kind \<open>k\<close> has its base value: the stored one for speed and jump, the initial
  32 by 48 for size; the kind \<open>Invincible\<close> has no stat. \<open>powerView\<close> collects the
  fields that power-ups read and write.
\<close>

datatype PlayerEvent =
  Update real InputManager Level
| ApplyPowerUp PowerUpType
| TakeDamage
| Bounce
| Respawn

fun applyEvent :: "PlayerEvent \<Rightarrow> Player \<Rightarrow> Player" where
  "applyEvent (Update deltaTime input level) p = Player_update deltaTime input level p"
| "applyEvent (ApplyPowerUp t) p = Player_applyPowerUp t p"
| "applyEvent TakeDamage p = Player_takeDamage p"
| "applyEvent Bounce p = Player_bounce p"
| "applyEvent Respawn p = Player_respawn p"

definition runEvents :: "PlayerEvent list \<Rightarrow> Player \<Rightarrow> Player" where
  "runEvents evs p = fold applyEvent evs p"

fun eventTime :: "PlayerEvent \<Rightarrow> real" where
  "eventTime (Update deltaTime input level) = deltaTime"
| "eventTime ev = 0"

definition elapsed :: "PlayerEvent list \<Rightarrow> real" where
  "elapsed evs = sum_list (map eventTime evs)"

fun isUpdate :: "PlayerEvent \<Rightarrow> bool" where
  "isUpdate (Update deltaTime input level) = True"
| "isUpdate ev = False"

definition updates :: "PlayerEvent list \<Rightarrow> nat" where
  "updates evs = length (filter isUpdate evs)"

definition forward :: "PlayerEvent \<Rightarrow> bool" where
  "forward ev = (0 \<le> eventTime ev)"

definition engineFrame :: "PlayerEvent \<Rightarrow> bool" where
  "engineFrame ev = (0 \<le> eventTime ev \<and> eventTime ev \<le> 0.016)"

fun reapplies :: "PowerUpType \<Rightarrow> PlayerEvent \<Rightarrow> bool" where
  "reapplies k (ApplyPowerUp t) = (t = k)"
| "reapplies k ev = False"

definition restored :: "PowerUpType \<Rightarrow> Player \<Rightarrow> bool" where
  "restored k p =
     (case k of
        Speed \<Rightarrow> player_speed p = the (player_basePowerValues p ''speed'')
                 \<and> player_maxSpeed p = the (player_basePowerValues p ''maxSpeed'')
      | Jump \<Rightarrow> player_jumpPower p = the (player_basePowerValues p ''jumpPower'')
      | Size \<Rightarrow> player_width p = 32 \<and> player_height p = 48
      | Invincible \<Rightarrow> True)"

definition powerView ::
  "Player \<Rightarrow> (PowerUpType \<times> real) list \<times> (string \<rightharpoonup> real) \<times> real \<times> real \<times> real \<times> real \<times> real" where
  "powerView p =
     (player_powerUpTimers p, player_basePowerValues p, player_speed p, player_maxSpeed p,
      player_jumpPower p, player_width p, player_height p)"

text \<open>
  The invariant of a run after \<^verbatim>\<open>applyPowerUp(k)\<close>: the keys are distinct, and the kind
  \<open>k\<close> either has a positive timer of at most \<open>r\<close> and at most 10 seconds, or is absent
  with its stat restored.
\<close>

definition pending :: "PowerUpType \<Rightarrow> real \<Rightarrow> Player \<Rightarrow> bool" where
  "pending k r p =
     (distinct (map fst (player_powerUpTimers p)) \<and>
      (case map_of (player_powerUpTimers p) k of
         Some t \<Rightarrow> 0 < t \<and> t \<le> r \<and> t \<le> 10
       | None \<Rightarrow> restored k p))"

section \<open>Example states\<close>

text \<open>
  Concrete inputs: a level whose only platform is the first ground tile; a level with one
  platform at the top left, and an enemy with the size of a player under it; the sequence
  of draws that are all 1/2; no key pressed; a run of calls with eleven seconds of updates.
\<close>

definition groundOnly :: Level where
  "groundOnly =
     \<lparr>level_width = 2048, level_height = 576,
      level_platforms = [newPlatform 0 512 128 64 Ground], level_enemies = [],
      level_collectibles = [], level_powerUps = [], level_levelNumber = 1\<rparr>"

definition underPlatform :: Level where
  "underPlatform =
     \<lparr>level_width = 2048, level_height = 576,
      level_platforms = [newPlatform 0 0 128 64 Floating], level_enemies = [],
      level_collectibles = [], level_powerUps = [], level_levelNumber = 1\<rparr>"

definition tallGoomba :: Enemy where
  "tallGoomba = (newEnemy 10 60 Goomba)\<lparr>enemy_width := 32, enemy_height := 48\<rparr>"

definition halves :: Rng where
  "halves = (\<lambda>k. 1 / 2)"

definition noInput :: InputManager where
  "noInput = (\<lambda>key. False)"

definition elevenSeconds :: "PlayerEvent list" where
  "elevenSeconds = [Update 4 noInput groundOnly, TakeDamage, Update 7 noInput groundOnly]"

text \<open>
  A sequence of draws for level 1: 1/2 for the 24 draws of the platforms and the enemies,
  then 1/25 and 21/50, which put the first collectible attempt at (219.92, 257.92), inside
  the first floating platform, then 0.
\<close>

definition mixedDraws :: Rng where
  "mixedDraws = (\<lambda>k. if k < 24 then 1 / 2 else if k = 24 then 1 / 25
                       else if k = 25 then 21 / 50 else 0)"

text \<open>
  A run of 641 updates, each of at most 0.016 s: one of \<open>tenMs\<close>, the binary64 number
  nearest to 0.01, then 639 of 1/64 s, then one of \<open>lastMs\<close>, a binary64 number near
  0.005625. Their exact sum is \<open>10 + 59 / 2 ^ 59\<close> seconds.
\<close>

definition tenMs :: real where
  "tenMs = 5764607523034235 / 2 ^ 59"

definition lastMs :: real where
  "lastMs = 50665495807919 / 2 ^ 53"

definition lateRun :: "PlayerEvent list" where
  "lateRun =
     Update tenMs noInput groundOnly
     # replicate 639 (Update (1 / 64) noInput groundOnly)
     @ [Update lastMs noInput groundOnly]"





section \<open>Rectangle: intersection and overlap\<close>

lemmas rect_edges = left_def right_def top_edge_def bottom_def centerX_def centerY_def


lemma intersects_iff:
  "intersects a b \<longleftrightarrow>
     left a < right b \<and> left b < right a \<and> top_edge a < bottom b \<and> top_edge b < bottom a"
  by (auto simp: intersects_def)

text \<open>
  C6. \<open>intersects\<close> is the open-interval test: it holds exactly when the two rectangles
  overlap with positive extent on both axes, so two rectangles with an edge of one exactly
  on the facing edge of the other do not intersect; and whenever \<open>intersects\<close> holds,
  both components of \<open>overlaps\<close> are non-negative.
\<close>

theorem intersects_open_overlaps_nonneg:
  "(intersects a b \<longleftrightarrow>
      left a < right b \<and> left b < right a \<and> top_edge a < bottom b \<and> top_edge b < bottom a)
   \<and> (right a = left b \<or> left a = right b \<or> bottom a = top_edge b \<or> top_edge a = bottom b
        \<longrightarrow> \<not> intersects a b)
   \<and> (intersects a b \<longrightarrow> 0 \<le> fst (overlaps a b) \<and> 0 \<le> snd (overlaps a b))"
  by (auto simp: intersects_iff overlaps_def Let_def)

theorem intersects_open_overlaps_nonneg_witness:
  "right \<lparr>rect_x = 0, rect_y = 0, rect_width = 10, rect_height = 10\<rparr>
     = left \<lparr>rect_x = 10, rect_y = 0, rect_width = 10, rect_height = 10\<rparr>
   \<and> \<not> intersects \<lparr>rect_x = 0, rect_y = 0, rect_width = 10, rect_height = 10\<rparr>
                   \<lparr>rect_x = 10, rect_y = 0, rect_width = 10, rect_height = 10\<rparr>
   \<and> intersects \<lparr>rect_x = 0, rect_y = 0, rect_width = 10, rect_height = 10\<rparr>
                \<lparr>rect_x = 6, rect_y = 8, rect_width = 10, rect_height = 10\<rparr>
   \<and> overlaps \<lparr>rect_x = 0, rect_y = 0, rect_width = 10, rect_height = 10\<rparr>
              \<lparr>rect_x = 6, rect_y = 8, rect_width = 10, rect_height = 10\<rparr> = (4, 2)"
  using intersects_open_overlaps_nonneg
          [of "\<lparr>rect_x = 0, rect_y = 0, rect_width = 10, rect_height = 10\<rparr>"
              "\<lparr>rect_x = 10, rect_y = 0, rect_width = 10, rect_height = 10\<rparr>"]
        intersects_open_overlaps_nonneg
          [of "\<lparr>rect_x = 0, rect_y = 0, rect_width = 10, rect_height = 10\<rparr>"
              "\<lparr>rect_x = 6, rect_y = 8, rect_width = 10, rect_height = 10\<rparr>"]
  by (simp add: rect_edges overlaps_def intersects_def)

section \<open>GameState: score and lives\<close>

lemma score_unlock [simp]: "score (unlock t n g) = score g"
  and highScore_unlock [simp]: "highScore (unlock t n g) = highScore g"
  and lives_unlock [simp]: "lives (unlock t n g) = lives g"
  by (simp_all add: unlock_def)

lemma score_addScore: "score (addScore points g) = score g + points"
  by (simp add: addScore_def checkScoreAchievements_def saveToStorage_def Let_def)

lemma highScore_addScore:
  "highScore (addScore points g) = max (highScore g) (score g + points)"
  by (simp add: addScore_def checkScoreAchievements_def saveToStorage_def Let_def)

lemma lives_addScore: "lives (addScore points g) = lives g"
  by (simp add: addScore_def checkScoreAchievements_def saveToStorage_def Let_def)

lemma lives_nextLevel: "lives (nextLevel g) = lives g"
  by (simp add: nextLevel_def checkLevelAchievements_def unlockLevel_def Let_def lives_addScore)

lemma lives_newGameState: "lives (newGameState saved works) = 3"
  by (simp add: newGameState_def Let_def split: option.splits prod.splits)

lemma score_newGameState: "score (newGameState saved works) = 0"
  by (simp add: newGameState_def Let_def split: option.splits prod.splits)

text \<open>
  C7, as the code has it. \<open>addScore\<close> adds \<open>points\<close> whatever its sign, so the score does
  not decrease when \<open>points\<close> is not negative; for every \<open>points\<close> the high score becomes
  the maximum of the old high score and the new score, and so never goes down.
\<close>

theorem addScore_monotonic:
  "(0 \<le> points \<longrightarrow> score g \<le> score (addScore points g))
   \<and> highScore (addScore points g) = max (highScore g) (score (addScore points g))
   \<and> highScore g \<le> highScore (addScore points g)"
  by (simp add: score_addScore highScore_addScore)

theorem addScore_monotonic_witness:
  "(0::int) \<le> 100
   \<and> score (newGameState None True) \<le> score (addScore 100 (newGameState None True))
   \<and> highScore (addScore 100 (newGameState None True)) = 100"
  using addScore_monotonic [of 100 "newGameState None True"]
  by (simp add: score_addScore score_newGameState) (simp add: newGameState_def)

text \<open>
  C7 as stated fails: after 10 points, a call \<^verbatim>\<open>addScore(-5)\<close> lowers the score to 5.
\<close>

theorem addScore_negative_counterexample:
  "\<not> score (addScore 10 (newGameState None True))
       \<le> score (addScore (- 5) (addScore 10 (newGameState None True)))"
  by (simp add: score_addScore score_newGameState)

lemma lives_applyGameOp:
  "0 \<le> lives g \<and> lives g \<le> 9 \<Longrightarrow>
   0 \<le> lives (applyGameOp op g) \<and> lives (applyGameOp op g) \<le> 9"
  by (cases op) (simp_all add: lives_addScore lives_nextLevel loseLife_def gainLife_def reset_def)

lemma lives_fold_applyGameOp:
  "0 \<le> lives g \<and> lives g \<le> 9 \<Longrightarrow>
   0 \<le> lives (fold applyGameOp ops g) \<and> lives (fold applyGameOp ops g) \<le> 9"
proof (induction ops arbitrary: g)
  case Nil
  then show ?case by simp
next
  case (Cons op ops)
  from Cons.prems have "0 \<le> lives (applyGameOp op g) \<and> lives (applyGameOp op g) \<le> 9"
    by (rule lives_applyGameOp)
  then show ?case using Cons.IH by simp
qed

text \<open>
  C9. \<open>loseLife\<close> at 0 lives leaves 0, \<open>gainLife\<close> at 9 lives leaves 9, both keep a
  number of lives that is within \<open>[0, 9]\<close> within \<open>[0, 9]\<close>, and after any run of calls
  on a freshly constructed GameState the number of lives is within \<open>[0, 9]\<close>.
\<close>

theorem lives_clamped:
  "(lives g = 0 \<longrightarrow> lives (loseLife g) = 0)
   \<and> (lives g = 9 \<longrightarrow> lives (gainLife g) = 9)
   \<and> (0 \<le> lives g \<and> lives g \<le> 9 \<longrightarrow>
        0 \<le> lives (loseLife g) \<and> lives (loseLife g) \<le> 9
        \<and> 0 \<le> lives (gainLife g) \<and> lives (gainLife g) \<le> 9)
   \<and> 0 \<le> lives (runGameOps ops (newGameState saved works))
   \<and> lives (runGameOps ops (newGameState saved works)) \<le> 9"
  using lives_fold_applyGameOp [of "newGameState saved works" ops]
  by (simp add: loseLife_def gainLife_def runGameOps_def lives_newGameState)

theorem lives_clamped_witness:
  "lives (runGameOps [LoseLife, LoseLife, LoseLife] (newGameState None True)) = 0
   \<and> lives (loseLife (runGameOps [LoseLife, LoseLife, LoseLife] (newGameState None True))) = 0
   \<and> lives (runGameOps [GainLife, GainLife, GainLife, GainLife, GainLife, GainLife]
              (newGameState None True)) = 9
   \<and> lives (gainLife (runGameOps [GainLife, GainLife, GainLife, GainLife, GainLife, GainLife]
              (newGameState None True))) = 9"
  using lives_clamped [of "runGameOps [LoseLife, LoseLife, LoseLife] (newGameState None True)"
                          "[]" None True]
        lives_clamped [of "runGameOps [GainLife, GainLife, GainLife, GainLife, GainLife, GainLife]
                             (newGameState None True)" "[]" None True]
  by (simp add: runGameOps_def newGameState_def gainLife_def loseLife_def)

section \<open>Player: damage\<close>

text \<open>
  C8. A player is invulnerable exactly when its invulnerability timer is positive or the
  power-up timer map has the key \<open>Invincible\<close>. \<open>takeDamage\<close> on an invulnerable player
  returns the very same state; on any other player it changes nothing but the
  invulnerability timer, set to 2, and the velocity, set to 200 horizontally away from the
  facing direction and 150 upwards.
\<close>

theorem takeDamage_invulnerable:
  "(Player_isInvulnerable p \<longleftrightarrow>
      player_invulnerabilityTimer p > 0 \<or> Invincible \<in> fst ` set (player_powerUpTimers p))
   \<and> (Player_isInvulnerable p \<longrightarrow> Player_takeDamage p = p)
   \<and> (\<not> Player_isInvulnerable p \<longrightarrow>
        Player_takeDamage p =
          p\<lparr>player_invulnerabilityTimer := 2,
            player_velocity := \<lparr>vec_x = (if player_facingRight p then - 200 else 200),
                                vec_y = - 150\<rparr>\<rparr>)"
  by (auto simp: Player_isInvulnerable_def Player_takeDamage_def set_vx_def set_vy_def
                 map_of_eq_None_iff)

theorem takeDamage_invulnerable_witness:
  "Player_isInvulnerable (Player_applyPowerUp Invincible (newPlayer 100 400))
   \<and> Player_takeDamage (Player_applyPowerUp Invincible (newPlayer 100 400))
       = Player_applyPowerUp Invincible (newPlayer 100 400)
   \<and> \<not> Player_isInvulnerable (newPlayer 100 400)
   \<and> player_invulnerabilityTimer (Player_takeDamage (newPlayer 100 400)) = 2
   \<and> player_velocity (Player_takeDamage (newPlayer 100 400)) = \<lparr>vec_x = - 200, vec_y = - 150\<rparr>"
  using takeDamage_invulnerable [of "Player_applyPowerUp Invincible (newPlayer 100 400)"]
        takeDamage_invulnerable [of "newPlayer 100 400"]
  by (simp add: Player_isInvulnerable_def Player_applyPowerUp_def newPlayer_def)

section \<open>Player: collision with one platform\<close>

lemma Player_check_single:
  "level_platforms level = [platform] \<Longrightarrow>
   Player_checkPlatformCollisions level p =
     Player_resolve (Player_getBounds p) platform (p\<lparr>player_isGrounded := False\<rparr>)"
  by (simp add: Player_checkPlatformCollisions_def Let_def)

text \<open>
  C1. A level has the single platform \<open>platform\<close>, which the bounds of the player
  intersect. Then after \<open>checkPlatformCollisions\<close> the player's rectangle does not
  intersect the platform's. When the horizontal overlap is the smaller one, x moves to an
  edge of the platform, velocity.x is zeroed and y and velocity.y are as before; otherwise
  y moves, velocity.y is zeroed and x and velocity.x are as before: with the player's
  centre above the platform's, y is the platform's top minus the player's height and the
  player is grounded, else y is the platform's bottom and the player is not grounded.
\<close>

theorem Player_collision_single_platform:
  "level_platforms level = [platform] \<Longrightarrow>
   intersects (Player_getBounds p) (Platform_getBounds platform) \<Longrightarrow>
   (let p' = Player_checkPlatformCollisions level p;
        pb = Player_getBounds p;
        plb = Platform_getBounds platform;
        horizontal = (fst (overlaps pb plb) < snd (overlaps pb plb))
    in \<not> intersects (Player_getBounds p') plb
       \<and> (player_x p' \<noteq> player_x p) \<noteq> (player_y p' \<noteq> player_y p)
       \<and> (horizontal \<longrightarrow>
            player_x p' \<noteq> player_x p
            \<and> player_x p' = (if centerX pb < centerX plb then left plb - player_width p
                              else right plb)
            \<and> vec_x (player_velocity p') = 0
            \<and> player_y p' = player_y p
            \<and> vec_y (player_velocity p') = vec_y (player_velocity p)
            \<and> \<not> player_isGrounded p')
       \<and> (\<not> horizontal \<longrightarrow>
            player_y p' \<noteq> player_y p
            \<and> player_x p' = player_x p
            \<and> vec_x (player_velocity p') = vec_x (player_velocity p)
            \<and> vec_y (player_velocity p') = 0)
       \<and> (\<not> horizontal \<and> centerY pb < centerY plb \<longrightarrow>
            player_y p' = top_edge plb - player_height p \<and> player_isGrounded p')
       \<and> (\<not> horizontal \<and> \<not> centerY pb < centerY plb \<longrightarrow>
            player_y p' = bottom plb \<and> \<not> player_isGrounded p'))"
  unfolding Let_def Player_check_single
  by (auto simp: Player_resolve_def Let_def overlaps_def intersects_iff rect_edges
                 Player_getBounds_def Platform_getBounds_def set_vx_def set_vy_def)

theorem Player_collision_single_platform_witness:
  "level_platforms groundOnly = [newPlatform 0 512 128 64 Ground]
   \<and> intersects (Player_getBounds (newPlayer 100 470))
                (Platform_getBounds (newPlatform 0 512 128 64 Ground))
   \<and> \<not> intersects
         (Player_getBounds (Player_checkPlatformCollisions groundOnly (newPlayer 100 470)))
         (Platform_getBounds (newPlatform 0 512 128 64 Ground))
   \<and> player_x (Player_checkPlatformCollisions groundOnly (newPlayer 100 470)) = 100
   \<and> player_y (Player_checkPlatformCollisions groundOnly (newPlayer 100 470)) = 464
   \<and> player_isGrounded (Player_checkPlatformCollisions groundOnly (newPlayer 100 470))"
proof -
  let ?p = "newPlayer 100 470"
  let ?pl = "newPlatform 0 512 128 64 Ground"
  have single: "level_platforms groundOnly = [?pl]"
    by (simp add: groundOnly_def)
  have hit: "intersects (Player_getBounds ?p) (Platform_getBounds ?pl)"
    by (simp add: intersects_def rect_edges Player_getBounds_def Platform_getBounds_def
                  newPlayer_def newPlatform_def)
  have ov: "overlaps (Player_getBounds ?p) (Platform_getBounds ?pl) = (28, 6)"
    by (simp add: overlaps_def rect_edges Player_getBounds_def Platform_getBounds_def
                  newPlayer_def newPlatform_def)
  have cy: "centerY (Player_getBounds ?p) < centerY (Platform_getBounds ?pl)"
    by (simp add: rect_edges Player_getBounds_def Platform_getBounds_def
                  newPlayer_def newPlatform_def)
  have vals: "player_x ?p = 100" "player_height ?p = 48"
             "top_edge (Platform_getBounds ?pl) = 512"
    by (simp_all add: rect_edges Platform_getBounds_def newPlayer_def newPlatform_def)
  show ?thesis
    using Player_collision_single_platform [OF single hit] single hit cy
    by (simp add: Let_def ov vals)
qed

section \<open>Enemy: collision with platforms, against the player's method\<close>

lemma Enemy_resolve_body:
  assumes "Player_body p = Enemy_body e"
  shows "Enemy_body (Enemy_resolve b pl e) =
           (if hitFromBelow b pl then Enemy_body e else Player_body (Player_resolve b pl p))"
  using assms
  by (auto simp: Enemy_resolve_def Player_resolve_def Player_body_def Enemy_body_def
                 hitFromBelow_def overlaps_def Let_def set_vx_def set_vy_def)

lemma Enemy_fold_body:
  "Player_body p = Enemy_body e \<Longrightarrow>
   Enemy_body (fold (Enemy_resolve b) ps e) =
     Player_body (fold (Player_resolve b) (filter (\<lambda>pl. \<not> hitFromBelow b pl) ps) p)"
proof (induction ps arbitrary: p e)
  case Nil
  then show ?case by simp
next
  case (Cons pl ps)
  show ?case
  proof (cases "hitFromBelow b pl")
    case True
    then have "Player_body p = Enemy_body (Enemy_resolve b pl e)"
      using Enemy_resolve_body [OF Cons.prems, of b pl] Cons.prems by simp
    from Cons.IH [OF this] True show ?thesis by simp
  next
    case False
    then have "Player_body (Player_resolve b pl p) = Enemy_body (Enemy_resolve b pl e)"
      using Enemy_resolve_body [OF Cons.prems, of b pl] by simp
    from Cons.IH [OF this] False show ?thesis by simp
  qed
qed

lemma Enemy_resolve_direction:
  "enemy_direction (Enemy_resolve b pl e) =
     (if wallContact b pl then enemy_direction e * (- 1) else enemy_direction e)"
  by (auto simp: Enemy_resolve_def wallContact_def overlaps_def Let_def)

lemma Enemy_fold_direction:
  "enemy_direction (fold (Enemy_resolve b) ps e) =
     enemy_direction e * (- 1) ^ length (filter (wallContact b) ps)"
  by (induction ps arbitrary: e) (simp_all add: Enemy_resolve_direction)

lemma Enemy_resolve_vx:
  "vec_x (enemy_velocity (Enemy_resolve b pl e)) = vec_x (enemy_velocity e)"
  by (auto simp: Enemy_resolve_def Let_def)

lemma Enemy_fold_vx:
  "vec_x (enemy_velocity (fold (Enemy_resolve b) ps e)) = vec_x (enemy_velocity e)"
  by (induction ps arbitrary: e) (simp_all add: Enemy_resolve_vx)

text \<open>
  C3, as the code has it. Take an enemy and a player with the same position and size,
  vertical velocity and grounded flag. On position, vertical velocity and grounded flag,
  \<open>Enemy.checkPlatformCollisions\<close> does what the player's method does on the same
  platforms without those that the bounds hit from below (vertical branch, centre not above
  the platform's centre): such a platform leaves the enemy as it is. The direction is
  reversed once for each wall contact, and velocity.x is never touched.
\<close>

theorem Enemy_collisions_vs_Player:
  "Player_body p = Enemy_body e \<Longrightarrow>
   (let b = Enemy_getBounds e;
        ps = level_platforms level;
        e' = Enemy_checkPlatformCollisions level e
    in Enemy_body e' =
         Player_body (Player_checkPlatformCollisions
                        (level\<lparr>level_platforms := filter (\<lambda>pl. \<not> hitFromBelow b pl) ps\<rparr>) p)
       \<and> enemy_direction e' = enemy_direction e * (- 1) ^ length (filter (wallContact b) ps)
       \<and> vec_x (enemy_velocity e') = vec_x (enemy_velocity e))"
proof -
  assume same: "Player_body p = Enemy_body e"
  then have bounds: "Player_getBounds p = Enemy_getBounds e"
    by (simp add: Player_body_def Enemy_body_def Player_getBounds_def Enemy_getBounds_def)
  from same have "Player_body (p\<lparr>player_isGrounded := False\<rparr>)
                  = Enemy_body (e\<lparr>enemy_isGrounded := False\<rparr>)"
    by (simp add: Player_body_def Enemy_body_def)
  from Enemy_fold_body [OF this] bounds show ?thesis
    by (simp add: Enemy_checkPlatformCollisions_def Player_checkPlatformCollisions_def
                  Let_def Enemy_fold_direction Enemy_fold_vx)
qed

lemma tallGoomba_body: "Player_body (newPlayer 10 60) = Enemy_body tallGoomba"
  by (simp add: Player_body_def Enemy_body_def newPlayer_def newEnemy_def tallGoomba_def)

lemma tallGoomba_hit:
  "hitFromBelow (Enemy_getBounds tallGoomba) (newPlatform 0 0 128 64 Floating)"
  by (simp add: hitFromBelow_def intersects_def overlaps_def rect_edges Enemy_getBounds_def
                Platform_getBounds_def newEnemy_def newPlatform_def tallGoomba_def)

theorem Enemy_collisions_vs_Player_witness:
  "Player_body (newPlayer 10 60) = Enemy_body tallGoomba
   \<and> Enemy_body (Enemy_checkPlatformCollisions underPlatform tallGoomba)
       = (10, 60, 32, 48, 0, False)
   \<and> enemy_direction (Enemy_checkPlatformCollisions underPlatform tallGoomba) = - 1"
proof -
  have nowall: "\<not> wallContact (Enemy_getBounds tallGoomba) (newPlatform 0 0 128 64 Floating)"
    using tallGoomba_hit by (simp add: hitFromBelow_def wallContact_def)
  show ?thesis
    using Enemy_collisions_vs_Player [OF tallGoomba_body, of underPlatform]
          tallGoomba_body tallGoomba_hit nowall
    by (simp add: Let_def underPlatform_def Player_checkPlatformCollisions_def)
       (simp add: Player_body_def newPlayer_def tallGoomba_def newEnemy_def)
qed

text \<open>
  C3 as stated fails: the same body under the same platform is pushed down to the
  platform's bottom when it is a player and left where it is when it is an enemy.
\<close>

theorem Enemy_not_identical_counterexample:
  "Player_body (newPlayer 10 60) = Enemy_body tallGoomba
   \<and> player_y (Player_checkPlatformCollisions underPlatform (newPlayer 10 60)) = 64
   \<and> enemy_y (Enemy_checkPlatformCollisions underPlatform tallGoomba) = 60
   \<and> Player_body (Player_checkPlatformCollisions underPlatform (newPlayer 10 60))
       \<noteq> Enemy_body (Enemy_checkPlatformCollisions underPlatform tallGoomba)"
  by (simp add: Player_body_def Enemy_body_def Player_checkPlatformCollisions_def
                Enemy_checkPlatformCollisions_def Player_resolve_def Enemy_resolve_def
                underPlatform_def tallGoomba_def newPlayer_def newEnemy_def newPlatform_def
                Player_getBounds_def Enemy_getBounds_def Platform_getBounds_def
                intersects_def rect_edges Let_def set_vx_def set_vy_def)

section \<open>Level generation\<close>

declare floatingLoop.simps [simp del] groundLoop.simps [simp del] movingLoop.simps [simp del]
  enemyLoop.simps [simp del] collectibleLoop.simps [simp del] powerUpLoop.simps [simp del]

lemma pushPlatform_fields [simp]:
  "level_width (pushPlatform pl lv) = level_width lv"
  "level_height (pushPlatform pl lv) = level_height lv"
  "level_levelNumber (pushPlatform pl lv) = level_levelNumber lv"
  "level_collectibles (pushPlatform pl lv) = level_collectibles lv"
  "level_platforms (pushPlatform pl lv) = level_platforms lv @ [pl]"
  by (simp_all add: pushPlatform_def)

lemma platformsOfType_push [simp]:
  "platformsOfType t (pushPlatform pl lv) =
     platformsOfType t lv @ (if plat_type pl = t then [pl] else [])"
  by (simp add: platformsOfType_def)

lemma plat_type_new [simp]: "plat_type (newPlatform px py w h t) = t"
  by (simp add: newPlatform_def)

lemma Math_random_advance: "Math_random rng = (rng 0, advance 1 rng)"
  by (simp add: Math_random_def advance_def)

lemma advance_advance [simp]: "advance a (advance b rng) = advance (b + a) rng"
  by (simp add: advance_def ac_simps)

lemma advance_0 [simp]: "advance 0 rng = rng"
  by (simp add: advance_def)

lemma advance_apply: "advance m rng k = rng (k + m)"
  by (simp add: advance_def)

lemma floatingLoop_step:
  "i < c \<Longrightarrow>
   floatingLoop i c lv rng =
     floatingLoop (i + 1) c
       (pushPlatform
          (newPlatform (200 + (real_of_int i * (level_width lv - 400)) / real_of_int c)
                       (200 + sin (real_of_int i * 0.5) * 100 + rng 0 * 100)
                       (96 + rng 1 * 64) 24 Floating) lv)
       (advance 2 rng)"
  by (subst floatingLoop.simps) (simp add: Math_random_advance Let_def advance_apply numeral_2_eq_2)

lemma floatingLoop_stop: "\<not> i < c \<Longrightarrow> floatingLoop i c lv rng = (lv, rng)"
  by (subst floatingLoop.simps) simp

lemma floatingLoop_fields:
  "level_width (fst (floatingLoop i c lv rng)) = level_width lv
   \<and> level_height (fst (floatingLoop i c lv rng)) = level_height lv
   \<and> level_levelNumber (fst (floatingLoop i c lv rng)) = level_levelNumber lv
   \<and> level_collectibles (fst (floatingLoop i c lv rng)) = level_collectibles lv"
proof (induction "nat (c - i)" arbitrary: i lv rng)
  case 0
  then show ?case by (simp add: floatingLoop_stop)
next
  case (Suc n)
  then have "i < c" and "n = nat (c - (i + 1))" by linarith+
  then show ?case using Suc.hyps(1) by (simp add: floatingLoop_step)
qed

lemma floatingLoop_other:
  "t \<noteq> Floating \<Longrightarrow>
   platformsOfType t (fst (floatingLoop i c lv rng)) = platformsOfType t lv"
proof (induction "nat (c - i)" arbitrary: i lv rng)
  case 0
  then show ?case by (simp add: floatingLoop_stop)
next
  case (Suc n)
  then have lt: "i < c" and n: "n = nat (c - (i + 1))" by linarith+
  show ?case using Suc.hyps(1) [OF n Suc.prems] Suc.prems
    by (simp add: floatingLoop_step [OF lt])
qed

lemma floatingLoop_count:
  "length (platformsOfType Floating (fst (floatingLoop i c lv rng)))
     = length (platformsOfType Floating lv) + nat (c - i)"
proof (induction "nat (c - i)" arbitrary: i lv rng)
  case 0
  then show ?case by (simp add: floatingLoop_stop)
next
  case (Suc n)
  then have lt: "i < c" and n: "n = nat (c - (i + 1))" by linarith+
  from lt have "nat (c - i) = Suc (nat (c - (i + 1)))" by linarith
  then show ?case using Suc.hyps(1) [OF n]
    by (simp add: floatingLoop_step [OF lt])
qed

lemma groundLoop_2048:
  "level_width lv = 2048 \<Longrightarrow>
   level_platforms (groundLoop 0 lv) =
     level_platforms lv @
       map (\<lambda>k. newPlatform (128 * real k) (level_height lv - 64) 128 64 Ground) [0..<16]"
  apply (subst groundLoop.simps, simp)+
  apply (simp add: upt_rec numeral_nat)
  done


lemma movingLoop_0:
  "movingLoop 0 lv =
     pushPlatform (newPlatform 1000 350 128 24 Moving)
       (pushPlatform (newPlatform 600 300 128 24 Moving) lv)"
  by (subst movingLoop.simps, simp add: Let_def)+

lemma enemyLoop_stop: "\<not> i < c \<Longrightarrow> enemyLoop i c lv rng = (lv, rng)"
  by (subst enemyLoop.simps) simp

lemma enemyLoop_step:
  "i < c \<Longrightarrow>
   \<exists>es. enemyLoop i c lv rng = enemyLoop (i + 1) c (lv\<lparr>level_enemies := es\<rparr>) (advance 1 rng)"
  by (subst enemyLoop.simps) (auto simp: Math_random_advance Let_def)

lemma enemyLoop_fields:
  "level_platforms (fst (enemyLoop i c lv rng)) = level_platforms lv
   \<and> level_collectibles (fst (enemyLoop i c lv rng)) = level_collectibles lv
   \<and> level_width (fst (enemyLoop i c lv rng)) = level_width lv
   \<and> level_height (fst (enemyLoop i c lv rng)) = level_height lv
   \<and> level_levelNumber (fst (enemyLoop i c lv rng)) = level_levelNumber lv"
proof (induction "nat (c - i)" arbitrary: i lv rng)
  case 0
  then show ?case by (simp add: enemyLoop_stop)
next
  case (Suc n)
  then have lt: "i < c" and n: "n = nat (c - (i + 1))" by linarith+
  from enemyLoop_step [OF lt] obtain es where
    "enemyLoop i c lv rng = enemyLoop (i + 1) c (lv\<lparr>level_enemies := es\<rparr>) (advance 1 rng)"
    by blast
  then show ?case using Suc.hyps(1) [OF n, of "lv\<lparr>level_enemies := es\<rparr>" "advance 1 rng"]
    by simp
qed

lemma powerUpLoop_stop: "\<not> i < c \<Longrightarrow> powerUpLoop i c lv rng = (lv, rng)"
  by (subst powerUpLoop.simps) simp

lemma powerUpLoop_step:
  "i < c \<Longrightarrow>
   \<exists>us. powerUpLoop i c lv rng = powerUpLoop (i + 1) c (lv\<lparr>level_powerUps := us\<rparr>) (advance 2 rng)"
  by (subst powerUpLoop.simps) (auto simp: Math_random_advance Let_def numeral_2_eq_2)

lemma powerUpLoop_fields:
  "level_platforms (fst (powerUpLoop i c lv rng)) = level_platforms lv
   \<and> level_collectibles (fst (powerUpLoop i c lv rng)) = level_collectibles lv
   \<and> level_width (fst (powerUpLoop i c lv rng)) = level_width lv
   \<and> level_height (fst (powerUpLoop i c lv rng)) = level_height lv
   \<and> level_levelNumber (fst (powerUpLoop i c lv rng)) = level_levelNumber lv"
proof (induction "nat (c - i)" arbitrary: i lv rng)
  case 0
  then show ?case by (simp add: powerUpLoop_stop)
next
  case (Suc n)
  then have lt: "i < c" and n: "n = nat (c - (i + 1))" by linarith+
  from powerUpLoop_step [OF lt] obtain us where
    "powerUpLoop i c lv rng = powerUpLoop (i + 1) c (lv\<lparr>level_powerUps := us\<rparr>) (advance 2 rng)"
    by blast
  then show ?case using Suc.hyps(1) [OF n, of "lv\<lparr>level_powerUps := us\<rparr>" "advance 2 rng"]
    by simp
qed

lemma collectibleLoop_stop: "\<not> i < c \<Longrightarrow> collectibleLoop i c lv rng = (lv, rng)"
  by (subst collectibleLoop.simps) simp

lemma collectibleLoop_skip:
  "i < c \<Longrightarrow> list_ex (insidePlatform (attempt_x lv rng) (attempt_y lv rng)) (level_platforms lv) \<Longrightarrow>
   collectibleLoop i c lv rng = collectibleLoop (i + 1) c lv (advance 2 rng)"
  by (subst collectibleLoop.simps)
     (simp add: Math_random_advance Let_def advance_apply numeral_2_eq_2 attempt_x_def attempt_y_def)

lemma collectibleLoop_place:
  "i < c \<Longrightarrow> \<not> list_ex (insidePlatform (attempt_x lv rng) (attempt_y lv rng)) (level_platforms lv) \<Longrightarrow>
   collectibleLoop i c lv rng =
     collectibleLoop (i + 1) c
       (lv\<lparr>level_collectibles := level_collectibles lv
              @ [newCollectible (attempt_x lv rng) (attempt_y lv rng)
                   (if rng 2 < 0.7 then Coin else Gem)]\<rparr>)
       (advance 3 rng)"
  by (subst collectibleLoop.simps)
     (simp add: Math_random_advance Let_def advance_apply numeral_2_eq_2 numeral_3_eq_3
                attempt_x_def attempt_y_def)

lemma col_xy_new [simp]:
  "col_x (newCollectible cx cy t) = cx" "col_y (newCollectible cx cy t) = cy"
  by (simp_all add: newCollectible_def Let_def split: CollectibleType.splits)

lemma collectibleLoop_fields:
  "level_platforms (fst (collectibleLoop i c lv rng)) = level_platforms lv
   \<and> level_width (fst (collectibleLoop i c lv rng)) = level_width lv
   \<and> level_height (fst (collectibleLoop i c lv rng)) = level_height lv
   \<and> level_levelNumber (fst (collectibleLoop i c lv rng)) = level_levelNumber lv"
proof (induction "nat (c - i)" arbitrary: i lv rng)
  case 0
  then show ?case by (simp add: collectibleLoop_stop)
next
  case (Suc n)
  then have lt: "i < c" and n: "n = nat (c - (i + 1))" by linarith+
  show ?case
  proof (cases "list_ex (insidePlatform (attempt_x lv rng) (attempt_y lv rng)) (level_platforms lv)")
    case True
    then show ?thesis using Suc.hyps(1) [OF n] by (simp add: collectibleLoop_skip [OF lt])
  next
    case False
    then show ?thesis using Suc.hyps(1) [OF n] by (simp add: collectibleLoop_place [OF lt])
  qed
qed

lemma collectibleLoop_length:
  "length (level_collectibles lv) \<le> length (level_collectibles (fst (collectibleLoop i c lv rng)))
   \<and> length (level_collectibles (fst (collectibleLoop i c lv rng)))
        \<le> length (level_collectibles lv) + nat (c - i)
   \<and> snd (collectibleLoop i c lv rng) =
        advance (2 * nat (c - i)
                 + (length (level_collectibles (fst (collectibleLoop i c lv rng)))
                    - length (level_collectibles lv))) rng"
proof (induction "nat (c - i)" arbitrary: i lv rng)
  case 0
  then show ?case by (simp add: collectibleLoop_stop)
next
  case (Suc n)
  then have lt: "i < c" and n: "n = nat (c - (i + 1))" by linarith+
  from lt have m: "nat (c - i) = Suc (nat (c - (i + 1)))" by linarith
  show ?case
  proof (cases "list_ex (insidePlatform (attempt_x lv rng) (attempt_y lv rng)) (level_platforms lv)")
    case True
    then show ?thesis using Suc.hyps(1) [OF n, of lv "advance 2 rng"] m
      by (simp add: collectibleLoop_skip [OF lt])
  next
    case False
    let ?lv1 = "lv\<lparr>level_collectibles := level_collectibles lv
              @ [newCollectible (attempt_x lv rng) (attempt_y lv rng)
                   (if rng 2 < 0.7 then Coin else Gem)]\<rparr>"
    note IH = Suc.hyps(1) [OF n, of ?lv1 "advance 3 rng"]
    have eq: "collectibleLoop i c lv rng = collectibleLoop (i + 1) c ?lv1 (advance 3 rng)"
      using False by (simp add: collectibleLoop_place [OF lt])
    let ?R = "collectibleLoop (i + 1) c ?lv1 (advance 3 rng)"
    from IH have a: "Suc (length (level_collectibles lv)) \<le> length (level_collectibles (fst ?R))"
      and b: "length (level_collectibles (fst ?R))
                \<le> Suc (length (level_collectibles lv)) + nat (c - (i + 1))"
      and d: "snd ?R = advance (2 * nat (c - (i + 1))
                 + (length (level_collectibles (fst ?R))
                    - Suc (length (level_collectibles lv)))) (advance 3 rng)"
      by simp_all
    have "3 + (2 * nat (c - (i + 1)) + (length (level_collectibles (fst ?R))
                    - Suc (length (level_collectibles lv))))
          = 2 * nat (c - i) + (length (level_collectibles (fst ?R)) - length (level_collectibles lv))"
      using a m by linarith
    with a b d m show ?thesis unfolding eq by simp
  qed
qed

lemma collectibleLoop_valid:
  "\<forall>x \<in> set (level_collectibles lv).
      \<not> list_ex (insidePlatform (col_x x) (col_y x)) (level_platforms lv) \<Longrightarrow>
   \<forall>x \<in> set (level_collectibles (fst (collectibleLoop i c lv rng))).
      \<not> list_ex (insidePlatform (col_x x) (col_y x)) (level_platforms lv)"
proof (induction "nat (c - i)" arbitrary: i lv rng)
  case 0
  then show ?case by (simp add: collectibleLoop_stop)
next
  case (Suc n)
  then have lt: "i < c" and n: "n = nat (c - (i + 1))" by linarith+
  show ?case
  proof (cases "list_ex (insidePlatform (attempt_x lv rng) (attempt_y lv rng)) (level_platforms lv)")
    case True
    then show ?thesis using Suc.hyps(1) [OF n Suc.prems, of "advance 2 rng"]
      by (simp add: collectibleLoop_skip [OF lt])
  next
    case False
    let ?lv1 = "lv\<lparr>level_collectibles := level_collectibles lv
              @ [newCollectible (attempt_x lv rng) (attempt_y lv rng)
                   (if rng 2 < 0.7 then Coin else Gem)]\<rparr>"
    have pre: "\<forall>x \<in> set (level_collectibles ?lv1).
      \<not> list_ex (insidePlatform (col_x x) (col_y x)) (level_platforms ?lv1)"
      using Suc.prems False by simp
    from Suc.hyps(1) [OF n pre, of "advance 3 rng"] False show ?thesis
      by (simp add: collectibleLoop_place [OF lt])
  qed
qed


lemma groundLoop_fields:
  "level_width (groundLoop gx lv) = level_width lv
   \<and> level_height (groundLoop gx lv) = level_height lv
   \<and> level_levelNumber (groundLoop gx lv) = level_levelNumber lv
   \<and> level_collectibles (groundLoop gx lv) = level_collectibles lv"
proof (induction gx lv rule: groundLoop.induct)
  case (1 gx lv)
  show ?case
  proof (cases "gx < level_width lv")
    case True
    from "1.IH" [OF True] True show ?thesis
      by (subst (1 2 3 4) groundLoop.simps) simp
  next
    case False
    then show ?thesis by (subst (1 2 3 4) groundLoop.simps) simp
  qed
qed

lemma groundLoop_types:
  "level_width lv = 2048 \<Longrightarrow> level_platforms lv = [] \<Longrightarrow>
   platformsOfType t (groundLoop 0 lv) =
     (if t = Ground
      then map (\<lambda>k. newPlatform (128 * real k) (level_height lv - 64) 128 64 Ground) [0..<16]
      else [])"
  by (simp add: platformsOfType_def groundLoop_2048 filter_map o_def)

lemma generatePlatforms_fields:
  "level_width (fst (generatePlatforms lv rng)) = level_width lv
   \<and> level_height (fst (generatePlatforms lv rng)) = level_height lv
   \<and> level_levelNumber (fst (generatePlatforms lv rng)) = level_levelNumber lv
   \<and> level_collectibles (fst (generatePlatforms lv rng)) = level_collectibles lv"
  by (simp add: generatePlatforms_def Let_def split_beta floatingLoop_fields groundLoop_fields
                movingLoop_0)

lemma generatePlatforms_types:
  assumes "level_width lv = 2048" and "level_platforms lv = []"
  shows "platformsOfType Ground (fst (generatePlatforms lv rng)) =
           map (\<lambda>k. newPlatform (128 * real k) (level_height lv - 64) 128 64 Ground) [0..<16]"
    and "length (platformsOfType Floating (fst (generatePlatforms lv rng)))
           = nat (8 + min (level_levelNumber lv) 5 * 2)"
    and "platformsOfType Moving (fst (generatePlatforms lv rng)) =
           (if level_levelNumber lv \<ge> 3
            then [newPlatform 600 300 128 24 Moving, newPlatform 1000 350 128 24 Moving]
            else [])"
  using assms
  by (simp_all add: generatePlatforms_def Let_def split_beta floatingLoop_fields
                    groundLoop_fields movingLoop_0 floatingLoop_other floatingLoop_count
                    groundLoop_types)

lemma generateEnemies_fields:
  "level_platforms (fst (generateEnemies lv rng)) = level_platforms lv
   \<and> level_collectibles (fst (generateEnemies lv rng)) = level_collectibles lv
   \<and> level_width (fst (generateEnemies lv rng)) = level_width lv
   \<and> level_height (fst (generateEnemies lv rng)) = level_height lv
   \<and> level_levelNumber (fst (generateEnemies lv rng)) = level_levelNumber lv"
  by (simp add: generateEnemies_def enemyLoop_fields)

lemma generatePowerUps_fields:
  "level_platforms (fst (generatePowerUps lv rng)) = level_platforms lv
   \<and> level_collectibles (fst (generatePowerUps lv rng)) = level_collectibles lv
   \<and> level_width (fst (generatePowerUps lv rng)) = level_width lv"
  by (simp add: generatePowerUps_def powerUpLoop_fields)

lemma generateCollectibles_fields:
  "level_platforms (fst (generateCollectibles lv rng)) = level_platforms lv
   \<and> level_width (fst (generateCollectibles lv rng)) = level_width lv"
  by (simp add: generateCollectibles_def collectibleLoop_fields)

lemma newLevel_platforms:
  "level_platforms (fst (newLevel n rng)) = level_platforms (fst (generatePlatforms (emptyLevel n) rng))
   \<and> level_width (fst (newLevel n rng)) = 2048"
  by (simp add: newLevel_def generateLevel_def Let_def split_beta generatePowerUps_fields
                generateCollectibles_fields generateEnemies_fields generatePlatforms_fields
                emptyLevel_def)

lemma newLevel_types:
  "platformsOfType t (fst (newLevel n rng)) = platformsOfType t (fst (generatePlatforms (emptyLevel n) rng))"
  by (simp add: platformsOfType_def newLevel_platforms)

lemma ground_row_tiles:
  "tiles (map (\<lambda>k. newPlatform (128 * real k) gy 128 64 Ground) [0..<16]) 0 2048"
  by (simp add: upt_rec numeral_nat newPlatform_def)

text \<open>
  C4, as the code has it. For every level number \<open>n\<close> and every sequence of draws, the
  generated level is 2048 wide and has 16 ground platforms, the \<open>k\<close>-th at x = 128 k and
  y = 512, each 128 wide and 64 high, which tile \<open>[0, 2048]\<close> from left to right with no
  gap; it has \<open>8 + 2 min(n, 5)\<close> floating platforms (none when that number is negative);
  and it has 2 moving platforms when \<open>n \<ge> 3\<close> and none otherwise.
\<close>

theorem level_platform_counts:
  "(let lv = fst (newLevel n rng)
    in level_width lv = 2048
       \<and> platformsOfType Ground lv =
           map (\<lambda>k. newPlatform (128 * real k) 512 128 64 Ground) [0..<16]
       \<and> length (platformsOfType Ground lv) = 16
       \<and> tiles (platformsOfType Ground lv) 0 (level_width lv)
       \<and> int (length (platformsOfType Floating lv)) = max 0 (8 + 2 * min n 5)
       \<and> length (platformsOfType Moving lv) = (if n \<ge> 3 then 2 else 0))"
proof -
  have e: "level_width (emptyLevel n) = 2048" "level_platforms (emptyLevel n) = []"
    "level_height (emptyLevel n) = 576" "level_levelNumber (emptyLevel n) = n"
    by (simp_all add: emptyLevel_def)
  note g = generatePlatforms_types [OF e(1) e(2), of rng]
  have ground: "platformsOfType Ground (fst (newLevel n rng)) =
           map (\<lambda>k. newPlatform (128 * real k) 512 128 64 Ground) [0..<16]"
    using g(1) by (simp add: newLevel_types e)
  have floating: "int (length (platformsOfType Floating (fst (newLevel n rng)))) = max 0 (8 + 2 * min n 5)"
    using g(2) by (simp add: newLevel_types e)
  have moving: "length (platformsOfType Moving (fst (newLevel n rng))) = (if n \<ge> 3 then 2 else 0)"
    using g(3) by (simp add: newLevel_types e)
  show ?thesis
    unfolding Let_def
    by (simp only: ground floating moving newLevel_platforms ground_row_tiles) simp
qed

lemma collectibleLoop_placements:
  "level_collectibles (fst (collectibleLoop i c lv rng)) =
     level_collectibles lv
     @ placements (nat (c - i)) (level_platforms lv) (level_width lv) (level_height lv) rng"
proof (induction "nat (c - i)" arbitrary: i lv rng)
  case 0
  then show ?case by (simp add: collectibleLoop_stop)
next
  case (Suc n)
  then have lt: "i < c" and n: "n = nat (c - (i + 1))" by linarith+
  from lt have m: "nat (c - i) = Suc (nat (c - (i + 1)))" by linarith
  show ?case
  proof (cases "list_ex (insidePlatform (attempt_x lv rng) (attempt_y lv rng)) (level_platforms lv)")
    case True
    then show ?thesis using Suc.hyps(1) [OF n, of lv "advance 2 rng"]
      by (simp add: collectibleLoop_skip [OF lt] m attempt_x_def attempt_y_def)
  next
    case False
    then show ?thesis
      using Suc.hyps(1) [OF n, of "lv\<lparr>level_collectibles := level_collectibles lv
              @ [newCollectible (attempt_x lv rng) (attempt_y lv rng)
                   (if rng 2 < 0.7 then Coin else Gem)]\<rparr>" "advance 3 rng"]
      by (simp add: collectibleLoop_place [OF lt] m attempt_x_def attempt_y_def)
  qed
qed

lemma placements_length: "length (placements k ps w h rng) \<le> k"
proof (induction k arbitrary: rng)
  case 0
  then show ?case by simp
next
  case (Suc k)
  from Suc [of "advance 2 rng"] Suc [of "advance 3 rng"] show ?case
    by (simp add: Let_def)
qed

lemma placements_valid:
  "c \<in> set (placements k ps w h rng) \<Longrightarrow> \<not> list_ex (insidePlatform (col_x c) (col_y c)) ps"
proof (induction k arbitrary: rng)
  case 0
  then show ?case by simp
next
  case (Suc k)
  then show ?case
    by (auto simp: Let_def split: if_splits)
qed

lemma floatingLoop_draws: "snd (floatingLoop i c lv rng) = advance (2 * nat (c - i)) rng"
proof (induction "nat (c - i)" arbitrary: i lv rng)
  case 0
  then show ?case by (simp add: floatingLoop_stop)
next
  case (Suc n)
  then have lt: "i < c" and n: "n = nat (c - (i + 1))" by linarith+
  from lt have "nat (c - i) = Suc (nat (c - (i + 1)))" by linarith
  then show ?case using Suc.hyps(1) [OF n]
    by (simp add: floatingLoop_step [OF lt])
qed

lemma enemyLoop_draws: "snd (enemyLoop i c lv rng) = advance (nat (c - i)) rng"
proof (induction "nat (c - i)" arbitrary: i lv rng)
  case 0
  then show ?case by (simp add: enemyLoop_stop)
next
  case (Suc n)
  then have lt: "i < c" and n: "n = nat (c - (i + 1))" by linarith+
  from lt have m: "nat (c - i) = Suc (nat (c - (i + 1)))" by linarith
  from enemyLoop_step [OF lt] obtain es where
    "enemyLoop i c lv rng = enemyLoop (i + 1) c (lv\<lparr>level_enemies := es\<rparr>) (advance 1 rng)"
    by blast
  then show ?case using Suc.hyps(1) [OF n, of "lv\<lparr>level_enemies := es\<rparr>" "advance 1 rng"] m
    by simp
qed

lemma generatePlatforms_draws:
  "snd (generatePlatforms lv rng) = advance (2 * nat (8 + 2 * min (level_levelNumber lv) 5)) rng"
  by (simp add: generatePlatforms_def Let_def split_beta floatingLoop_draws groundLoop_fields
                mult.commute)

lemma generateEnemies_draws:
  "snd (generateEnemies lv rng) = advance (nat (3 + level_levelNumber lv)) rng"
  by (simp add: generateEnemies_def enemyLoop_draws)

text \<open>
  C5, as the code has it. For every level number \<open>n\<close> and every sequence of draws, the
  collectibles of the generated level are exactly those that \<open>15 + 3 n\<close> attempts place
  (no attempt when that number is negative) on the platforms of the level, from the draw
  that follows those of the platforms and the enemies: an attempt whose position is inside
  a platform is skipped and not retried, every other attempt places a collectible at its
  position. So there are at most \<open>max(0, 15 + 3 n)\<close> collectibles, and none of them is
  inside a platform.
\<close>

theorem collectibles_placed_or_skipped:
  "(let lv = fst (newLevel n rng);
        start = advance (2 * nat (8 + 2 * min n 5) + nat (3 + n)) rng
    in level_collectibles lv =
         placements (nat (15 + 3 * n)) (level_platforms lv) (level_width lv) (level_height lv) start
       \<and> int (length (level_collectibles lv)) \<le> max 0 (15 + 3 * n)
       \<and> (\<forall>c \<in> set (level_collectibles lv). \<forall>pl \<in> set (level_platforms lv).
             \<not> insidePlatform (col_x c) (col_y c) pl))"
proof -
  let ?lv1 = "fst (generatePlatforms (emptyLevel n) rng)"
  let ?rng1 = "snd (generatePlatforms (emptyLevel n) rng)"
  let ?lv2 = "fst (generateEnemies ?lv1 ?rng1)"
  let ?rng2 = "snd (generateEnemies ?lv1 ?rng1)"
  let ?lv3 = "fst (generateCollectibles ?lv2 ?rng2)"
  let ?lv = "fst (newLevel n rng)"
  let ?start = "advance (2 * nat (8 + 2 * min n 5) + nat (3 + n)) rng"
  have cols: "level_collectibles ?lv = level_collectibles ?lv3"
    by (simp add: newLevel_def generateLevel_def Let_def split_beta generatePowerUps_fields
                  emptyLevel_def)
  have plats: "level_platforms ?lv = level_platforms ?lv2"
    by (simp add: newLevel_platforms generateEnemies_fields)
  have size: "level_width ?lv = level_width ?lv2" "level_height ?lv = level_height ?lv2"
    by (simp_all add: newLevel_def generateLevel_def Let_def split_beta generatePowerUps_def
          powerUpLoop_fields generateCollectibles_def collectibleLoop_fields emptyLevel_def)
  have empty2: "level_collectibles ?lv2 = []" and num2: "level_levelNumber ?lv2 = n"
    by (simp_all add: generateEnemies_fields generatePlatforms_fields emptyLevel_def)
  have rng2: "?rng2 = ?start"
    by (simp add: generateEnemies_draws generatePlatforms_draws generatePlatforms_fields
                  emptyLevel_def)
  have eq: "level_collectibles ?lv =
         placements (nat (15 + 3 * n)) (level_platforms ?lv) (level_width ?lv) (level_height ?lv) ?start"
    using collectibleLoop_placements [of 0 "15 + n * 3" ?lv2 ?rng2]
    by (simp add: cols plats size generateCollectibles_def empty2 num2 rng2 mult.commute)
  have "length (placements (nat (15 + 3 * n)) (level_platforms ?lv) (level_width ?lv)
                  (level_height ?lv) ?start) \<le> nat (15 + 3 * n)"
    by (rule placements_length)
  then have "length (level_collectibles ?lv) \<le> nat (15 + 3 * n)"
    by (simp only: eq [symmetric])
  then have len: "int (length (level_collectibles ?lv)) \<le> max 0 (15 + 3 * n)"
    by linarith
  have valid: "\<forall>c \<in> set (level_collectibles ?lv). \<forall>pl \<in> set (level_platforms ?lv).
             \<not> insidePlatform (col_x c) (col_y c) pl"
  proof (intro ballI)
    fix c pl
    assume "c \<in> set (level_collectibles ?lv)" and pl: "pl \<in> set (level_platforms ?lv)"
    then have "c \<in> set (placements (nat (15 + 3 * n)) (level_platforms ?lv) (level_width ?lv)
                          (level_height ?lv) ?start)"
      by (simp only: eq [symmetric])
    from placements_valid [OF this] pl show "\<not> insidePlatform (col_x c) (col_y c) pl"
      by (auto simp: list_ex_iff)
  qed
  from eq len valid show ?thesis by (simp only: Let_def)
qed

theorem level_platform_counts_witness:
  "length (platformsOfType Ground (fst (newLevel 3 halves))) = 16
   \<and> tiles (platformsOfType Ground (fst (newLevel 3 halves))) 0 2048
   \<and> length (platformsOfType Floating (fst (newLevel 3 halves))) = 14
   \<and> length (platformsOfType Moving (fst (newLevel 3 halves))) = 2
   \<and> length (platformsOfType Floating (fst (newLevel 1 halves))) = 10
   \<and> length (platformsOfType Moving (fst (newLevel 1 halves))) = 0"
  using level_platform_counts [of 3 halves] level_platform_counts [of 1 halves]
  by (simp add: Let_def ground_row_tiles)

text \<open>
  C4 as stated fails: level 1 has 16 ground platforms, not one.
\<close>

theorem one_ground_platform_counterexample:
  "length (platformsOfType Ground (fst (newLevel 1 halves))) \<noteq> 1"
proof -
  have "level_width (emptyLevel 1) = 2048" and "level_platforms (emptyLevel 1) = []"
    by (simp_all add: emptyLevel_def)
  from generatePlatforms_types(1) [OF this] show ?thesis
    by (simp add: newLevel_types)
qed

text \<open>
  Level 1 with the draws \<open>mixedDraws\<close>: the first of the 18 attempts falls inside the first
  floating platform and is skipped; the other 17 place a coin at (150, 100).
\<close>

lemma mixed_platforms:
  "level_platforms (fst (newLevel 1 mixedDraws)) =
     map (\<lambda>k. newPlatform (128 * real k) 512 128 64 Ground) [0..<16]
     @ map (\<lambda>i. newPlatform (200 + real i * 1648 / 10) (250 + sin (real i / 2) * 100)
                     128 24 Floating) [0..<10]"
proof -
  have "level_platforms (fst (newLevel 1 mixedDraws))
          = level_platforms (fst (generatePlatforms (emptyLevel 1) mixedDraws))"
    by (simp add: newLevel_platforms)
  also have "\<dots> = map (\<lambda>k. newPlatform (128 * real k) 512 128 64 Ground) [0..<16]
     @ map (\<lambda>i. newPlatform (200 + real i * 1648 / 10) (250 + sin (real i / 2) * 100)
                     128 24 Floating) [0..<10]"
    by (simp add: generatePlatforms_def Let_def split_beta emptyLevel_def groundLoop_2048
        groundLoop_fields floatingLoop_step floatingLoop_stop advance_apply mixedDraws_def)
       (simp add: upt_rec numeral_nat)
  finally show ?thesis .
qed

lemma mixed_placements:
  "placements 18
     (map (\<lambda>k. newPlatform (128 * real k) 512 128 64 Ground) [0..<16]
      @ map (\<lambda>i. newPlatform (200 + real i * 1648 / 10) (250 + sin (real i / 2) * 100)
                     128 24 Floating) [0..<10])
     2048 576 (advance 24 mixedDraws)
   = replicate 17 (newCollectible 150 100 Coin)"
  by (simp add: eval_nat_numeral upt_rec Let_def advance_apply mixedDraws_def insidePlatform_def
                newPlatform_def)

lemma newLevel_size:
  "level_width (fst (newLevel n rng)) = 2048" "level_height (fst (newLevel n rng)) = 576"
  by (simp_all add: newLevel_def generateLevel_def Let_def split_beta
        generatePowerUps_def powerUpLoop_fields generateCollectibles_def collectibleLoop_fields
        generateEnemies_fields generatePlatforms_fields emptyLevel_def)

theorem collectibles_placed_or_skipped_witness:
  "level_collectibles (fst (newLevel 1 mixedDraws)) = replicate 17 (newCollectible 150 100 Coin)
   \<and> insidePlatform (150 + mixedDraws 24 * (2048 - 300)) (100 + mixedDraws 25 * (576 - 200))
        (newPlatform 200 250 128 24 Floating)
   \<and> newPlatform 200 250 128 24 Floating \<in> set (level_platforms (fst (newLevel 1 mixedDraws)))
   \<and> int (length (level_collectibles (fst (newLevel 1 mixedDraws)))) \<le> max 0 (15 + 3 * 1)
   \<and> list_all (\<lambda>pl. \<not> insidePlatform 150 100 pl) (level_platforms (fst (newLevel 1 mixedDraws)))"
proof -
  let ?lv = "fst (newLevel 1 mixedDraws)"
  have passes: "nat (15 + 3 * (1::int)) = 18"
    and start: "2 * nat (8 + 2 * min (1::int) 5) + nat (3 + 1) = 24"
    by simp_all
  from collectibles_placed_or_skipped [of 1 mixedDraws]
  have all: "level_collectibles ?lv =
          placements (nat (15 + 3 * 1)) (level_platforms ?lv) (level_width ?lv) (level_height ?lv)
            (advance (2 * nat (8 + 2 * min 1 5) + nat (3 + 1)) mixedDraws)
       \<and> int (length (level_collectibles ?lv)) \<le> max 0 (15 + 3 * 1)
       \<and> (\<forall>c \<in> set (level_collectibles ?lv). \<forall>pl \<in> set (level_platforms ?lv).
             \<not> insidePlatform (col_x c) (col_y c) pl)"
    unfolding Let_def .
  then have "level_collectibles ?lv =
          placements (nat (15 + 3 * 1)) (level_platforms ?lv) (level_width ?lv) (level_height ?lv)
            (advance (2 * nat (8 + 2 * min 1 5) + nat (3 + 1)) mixedDraws)"
    by (rule conjunct1)
  then have cols: "level_collectibles ?lv = replicate 17 (newCollectible 150 100 Coin)"
    by (simp only: passes start newLevel_size mixed_platforms mixed_placements)
  have skipped: "insidePlatform (150 + mixedDraws 24 * (2048 - 300))
                   (100 + mixedDraws 25 * (576 - 200)) (newPlatform 200 250 128 24 Floating)"
    by (simp add: mixedDraws_def insidePlatform_def newPlatform_def)
  have first: "newPlatform 200 250 128 24 Floating \<in> set (level_platforms ?lv)"
    by (simp add: mixed_platforms upt_rec numeral_nat)
  have "newCollectible 150 100 Coin \<in> set (level_collectibles ?lv)"
    by (simp add: cols)
  with all have "\<forall>pl \<in> set (level_platforms ?lv).
       \<not> insidePlatform (col_x (newCollectible 150 100 Coin)) (col_y (newCollectible 150 100 Coin)) pl"
    by blast
  then have free: "list_all (\<lambda>pl. \<not> insidePlatform 150 100 pl) (level_platforms ?lv)"
    by (simp add: list_all_iff)
  from all cols skipped first free show ?thesis by blast
qed

text \<open>
  C5 as stated fails for a level number below -5: level -6 has no collectible, and 0 is
  more than \<open>15 + 3 (-6) = -3\<close>.
\<close>

theorem collectibles_negative_level_counterexample:
  "\<not> int (length (level_collectibles (fst (newLevel (- 6) halves)))) \<le> 15 + 3 * (- 6)"
  by simp

section \<open>Rounding to binary64\<close>

text \<open>
  The rounded value is within half a unit in the last place of the exact one, so at most
  \<open>1 / 2 ^ 50\<close> above an exact value below 16; it is not positive when the exact value is
  not; it does not exceed 10 when the exact value does not; and a number \<open>m * 2 ^ q\<close>
  with \<open>0 < m < 2 ^ 53\<close> and \<open>q \<ge> -1074\<close> is not changed.
\<close>

lemma ulp_pos: "0 < ulp x"
  by (simp add: ulp_def)

lemma roundEven_near: "\<bar>real_of_int (roundEven y) - y\<bar> \<le> 1 / 2"
  unfolding roundEven_def Let_def by (auto simp: abs_le_iff)

lemma roundEven_int: "roundEven (real_of_int m) = m"
  by (simp add: roundEven_def)

lemma roundEven_nonpos: "y \<le> 0 \<Longrightarrow> roundEven y \<le> 0"
  unfolding roundEven_def Let_def by (auto; linarith)

lemma roundEven_le_int: "y \<le> real_of_int k \<Longrightarrow> roundEven y \<le> k"
  unfolding roundEven_def Let_def by (auto; linarith)

lemma binade_le: "0 < x \<Longrightarrow> x < 16 \<Longrightarrow> binade x \<le> 3"
proof -
  assume x: "0 < x" "x < 16"
  have "log 2 x < log 2 16" using x by simp
  also have "log 2 16 = 4"
  proof -
    have "(16::real) = 2 powr 4" by simp
    then show ?thesis by (simp only: log_powr_cancel)
  qed
  finally have "\<lfloor>log 2 x\<rfloor> \<le> 3" by linarith
  with x show ?thesis by (simp add: binade_def)
qed

lemma ulp_small: "0 < x \<Longrightarrow> x < 16 \<Longrightarrow> ulp x \<le> 1 / 2 ^ 49"
proof -
  assume x: "0 < x" "x < 16"
  from binade_le [OF x] have "real_of_int (binade x) - 52 \<le> - 49" by simp
  then have "ulp x \<le> 2 powr (- 49)" unfolding ulp_def by (simp only: powr_le_cancel_iff)
  also have "(2::real) powr (- 49) = 1 / 2 ^ 49"
    by (simp add: powr_minus_divide powr_realpow [symmetric])
  finally show ?thesis .
qed

lemma double_round_upper:
  assumes "0 < x" "x < 16"
  shows "double_round x \<le> x + 1 / 2 ^ 50"
proof -
  let ?u = "ulp x"
  have "real_of_int (roundEven (x / ?u)) \<le> x / ?u + 1 / 2"
    using roundEven_near [of "x / ?u"] by linarith
  then have "?u * real_of_int (roundEven (x / ?u)) \<le> ?u * (x / ?u + 1 / 2)"
    using ulp_pos [of x] by (simp only: mult_le_cancel_left_pos)
  also have "\<dots> = x + ?u / 2" using ulp_pos [of x] by (simp add: field_simps)
  also have "\<dots> \<le> x + (1 / 2 ^ 49) / 2" using ulp_small [OF assms] by simp
  finally show ?thesis using assms by (simp add: double_round_def)
qed

lemma double_round_nonpos: "x \<le> 0 \<Longrightarrow> double_round x \<le> 0"
proof -
  assume "x \<le> 0"
  then have "x / ulp x \<le> 0" using ulp_pos [of x] by (simp add: divide_le_0_iff)
  then have "roundEven (x / ulp x) \<le> 0" by (rule roundEven_nonpos)
  then have "ulp x * real_of_int (roundEven (x / ulp x)) \<le> 0"
    using ulp_pos [of x] by (simp add: mult_le_0_iff)
  then show ?thesis by (simp add: double_round_def)
qed


text \<open>Representable numbers are fixed points.\<close>

lemma floor_log2_less:
  assumes "0 < x" and "x < 2 powr real_of_int n"
  shows "\<lfloor>log 2 x\<rfloor> < n"
proof -
  have "log 2 x < real_of_int n" using assms by (simp add: log_less_iff)
  then show ?thesis by linarith
qed

lemma double_round_representable:
  assumes "0 < m" and "m < 2 ^ 53" and "- 1074 \<le> q"
  shows "double_round (real_of_int m * 2 powr real_of_int q) = real_of_int m * 2 powr real_of_int q"
proof -
  define x where "x = real_of_int m * 2 powr real_of_int q"
  define b where "b = binade x"
  have pos: "0 < x" using assms(1) by (simp add: x_def)
  have "real_of_int m < 2 ^ 53" using assms(2) by (metis of_int_less_iff of_int_numeral of_int_power)
  then have "real_of_int m < 2 powr real_of_int 53" by (simp add: powr_realpow [symmetric])
  then have "x < 2 powr real_of_int 53 * 2 powr real_of_int q" by (simp add: x_def)
  also have "\<dots> = 2 powr real_of_int (53 + q)" by (simp add: powr_add)
  finally have "\<lfloor>log 2 x\<rfloor> < 53 + q" using pos by (rule floor_log2_less [rotated])
  with assms(3) have le: "b - 52 \<le> q" using pos by (simp add: binade_def b_def)
  define d where "d = nat (q - (b - 52))"
  from le have dq: "real_of_int q - (real_of_int b - 52) = real d" by (simp add: d_def)
  have u: "ulp x = 2 powr (real_of_int b - 52)" by (simp add: ulp_def b_def)
  have "x / ulp x = real_of_int m * (2 powr real_of_int q / 2 powr (real_of_int b - 52))"
    unfolding u by (simp add: x_def)
  also have "2 powr real_of_int q / 2 powr (real_of_int b - 52) = 2 powr real d"
    by (simp only: powr_diff [symmetric] dq)
  also have "real_of_int m * 2 powr real d = real_of_int (m * 2 ^ d)" by (simp add: powr_realpow)
  finally have "roundEven (x / ulp x) = m * 2 ^ d" by (simp only: roundEven_int)
  then have "ulp x * real_of_int (roundEven (x / ulp x)) = real_of_int m * (2 powr (real_of_int b - 52) * 2 powr real d)"
    by (simp add: powr_realpow u)
  also have "2 powr (real_of_int b - 52) * 2 powr real d = 2 powr real_of_int q"
    by (simp only: powr_add [symmetric]) (simp add: dq [symmetric])
  finally show ?thesis using pos by (simp add: double_round_def x_def)
qed

lemma double_round_cap:
  assumes "0 < x" and "x \<le> 10"
  shows "double_round x \<le> 10"
proof -
  from assms have b: "binade x \<le> 3" by (simp add: binade_le)
  define e where "e = nat (52 - binade x)"
  have "real_of_int (binade x) - 52 = - real e" using b by (simp add: e_def)
  then have "ulp x = 2 powr (- real e)" by (simp add: ulp_def)
  then have u: "ulp x = 1 / 2 ^ e" by (simp add: powr_minus_divide powr_realpow)
  have "10 / ulp x = 10 * 2 ^ e" by (simp add: u)
  also have "\<dots> = real_of_int (10 * 2 ^ e)" by simp
  finally have ten: "10 / ulp x = real_of_int (10 * 2 ^ e)" .
  have "x / ulp x \<le> 10 / ulp x" using assms ulp_pos [of x] by (simp add: divide_right_mono)
  then have "roundEven (x / ulp x) \<le> 10 * 2 ^ e" unfolding ten by (rule roundEven_le_int)
  then have "real_of_int (roundEven (x / ulp x)) \<le> 10 / ulp x" unfolding ten by (simp only: of_int_le_iff)
  then have "ulp x * real_of_int (roundEven (x / ulp x)) \<le> ulp x * (10 / ulp x)"
    using ulp_pos [of x] by (simp only: mult_le_cancel_left_pos)
  also have "\<dots> = 10" using ulp_pos [of x] by simp
  finally show ?thesis using assms by (simp add: double_round_def)
qed

lemma double_round_dyadic:
  assumes "0 < m" and "m < 2 ^ 53" and "n \<le> 1074"
  shows "double_round (real_of_int m / 2 ^ n) = real_of_int m / 2 ^ n"
proof -
  have p: "(2::real) powr real_of_int (- int n) = 1 / 2 ^ n"
    by (simp add: powr_minus_divide powr_realpow)
  have e: "real_of_int m * 2 powr real_of_int (- int n) = real_of_int m / 2 ^ n"
    unfolding p by simp
  have "double_round (real_of_int m * 2 powr real_of_int (- int n))
          = real_of_int m * 2 powr real_of_int (- int n)"
    by (rule double_round_representable) (use assms in simp_all)
  then show ?thesis unfolding e .
qed

lemma double_round_bit53: "double_round (1 / 2 ^ 53) = 1 / 2 ^ 53"
  using double_round_dyadic [of 1 53] by simp


lemma double_round_binade3:
  assumes "8 \<le> x" and "x < 16"
  shows "double_round x = real_of_int (roundEven (x * 2 ^ 49)) / 2 ^ 49"
proof -
  have "log 2 8 \<le> log 2 x" using assms by simp
  moreover have "log 2 8 = 3"
  proof -
    have "(8::real) = 2 powr 3" by simp
    then show ?thesis by (simp only: log_powr_cancel)
  qed
  moreover have "log 2 x < log 2 16" using assms by simp
  moreover have "log 2 16 = 4"
  proof -
    have "(16::real) = 2 powr 4" by simp
    then show ?thesis by (simp only: log_powr_cancel)
  qed
  ultimately have "\<lfloor>log 2 x\<rfloor> = 3" by linarith
  then have "binade x = 3" using assms by (simp add: binade_def)
  then have "ulp x = 2 powr (- 49)" by (simp add: ulp_def)
  also have "\<dots> = 1 / 2 ^ 49"
    by (simp add: powr_minus_divide)
  finally have u: "ulp x = 1 / 2 ^ 49" .
  have "x \<noteq> 0" using assms by simp
  then have "double_round x = ulp x * real_of_int (roundEven (x / ulp x))"
    by (simp add: double_round_def)
  also have "\<dots> = real_of_int (roundEven (x * 2 ^ 49)) / 2 ^ 49"
    unfolding u by simp
  finally show ?thesis .
qed

lemma first_ten_ms:
  "double_round (10 - 5764607523034235 / 2 ^ 59) = 5623870034678907 / 2 ^ 49"
proof -
  have "roundEven ((10 - 5764607523034235 / 2 ^ 59) * 2 ^ 49) = 5623870034678907"
    by (simp add: roundEven_def Let_def)
  then show ?thesis by (simp add: double_round_binade3)
qed

section \<open>Player: power-up timers\<close>

lemma powerView_upd [simp]:
  "powerView (p\<lparr>player_x := a\<rparr>) = powerView p"
  "powerView (p\<lparr>player_y := a\<rparr>) = powerView p"
  "powerView (p\<lparr>player_velocity := v\<rparr>) = powerView p"
  "powerView (p\<lparr>player_isGrounded := g\<rparr>) = powerView p"
  "powerView (p\<lparr>player_isRunning := g\<rparr>) = powerView p"
  "powerView (p\<lparr>player_facingRight := g\<rparr>) = powerView p"
  "powerView (p\<lparr>player_invulnerabilityTimer := a\<rparr>) = powerView p"
  "powerView (p\<lparr>player_animationFrame := k\<rparr>) = powerView p"
  "powerView (p\<lparr>player_animationTimer := a\<rparr>) = powerView p"
  by (simp_all add: powerView_def)

lemma powerView_set_vx [simp]: "powerView (set_vx v p) = powerView p"
  and powerView_set_vy [simp]: "powerView (set_vy v p) = powerView p"
  by (simp_all add: set_vx_def set_vy_def)

lemma powerView_if: "powerView (if c then a else b) = (if c then powerView a else powerView b)"
  by simp

lemma powerView_handleInput: "powerView (Player_handleInput input dt p) = powerView p"
  by (simp add: Player_handleInput_def Let_def powerView_if cong: if_cong split del: if_split)

lemma powerView_resolve: "powerView (Player_resolve b pl p) = powerView p"
  by (simp add: Player_resolve_def Let_def powerView_if cong: if_cong split del: if_split)

lemma powerView_fold_resolve: "powerView (fold (Player_resolve b) ps p) = powerView p"
  by (induction ps arbitrary: p) (simp_all add: powerView_resolve)

lemma powerView_checkPlatformCollisions:
  "powerView (Player_checkPlatformCollisions level p) = powerView p"
  by (simp add: Player_checkPlatformCollisions_def Let_def powerView_fold_resolve)

lemma powerView_respawn: "powerView (Player_respawn p) = powerView p"
  by (simp add: Player_respawn_def)

lemma powerView_updatePhysics: "powerView (Player_updatePhysics dt level p) = powerView p"
  by (simp add: Player_updatePhysics_def Let_def powerView_if powerView_respawn
                powerView_checkPlatformCollisions cong: if_cong split del: if_split)

lemma powerView_updateAnimation: "powerView (Player_updateAnimation dt p) = powerView p"
  by (simp add: Player_updateAnimation_def Let_def powerView_if cong: if_cong split del: if_split)

lemma powerView_updateInvulnerability:
  "powerView (Player_updateInvulnerability dt p) = powerView p"
  by (simp add: Player_updateInvulnerability_def powerView_if cong: if_cong split del: if_split)

lemma powerView_takeDamage: "powerView (Player_takeDamage p) = powerView p"
  by (simp add: Player_takeDamage_def powerView_if cong: if_cong split del: if_split)

lemma powerView_bounce: "powerView (Player_bounce p) = powerView p"
  by (simp add: Player_bounce_def)

lemma restored_cong: "powerView a = powerView b \<Longrightarrow> restored k a = restored k b"
  by (simp add: powerView_def restored_def split: PowerUpType.splits)

lemma timers_cong:
  "powerView a = powerView b \<Longrightarrow> player_powerUpTimers a = player_powerUpTimers b"
  and base_cong:
  "powerView a = powerView b \<Longrightarrow> player_basePowerValues a = player_basePowerValues b"
  by (simp_all add: powerView_def)

lemma removePowerUp_frame:
  "player_powerUpTimers (Player_removePowerUp k p) = player_powerUpTimers p"
  "player_basePowerValues (Player_removePowerUp k p) = player_basePowerValues p"
  by (simp_all add: Player_removePowerUp_def split: PowerUpType.splits)

lemma removePowerUp_restores: "restored k (Player_removePowerUp k p)"
  by (simp add: Player_removePowerUp_def restored_def split: PowerUpType.splits)

lemma removePowerUp_keeps: "restored k p \<Longrightarrow> restored k (Player_removePowerUp k' p)"
  by (cases k; cases k') (simp_all add: Player_removePowerUp_def restored_def)

lemma restored_timers_upd [simp]:
  "restored k (p\<lparr>player_powerUpTimers := ts\<rparr>) = restored k p"
  by (simp add: restored_def split: PowerUpType.splits)

lemma tick_timers:
  "player_powerUpTimers (powerUpTick dt e p) =
     (if double_round (snd e - dt) \<le> 0 then AList.delete (fst e) (player_powerUpTimers p)
      else AList.update (fst e) (double_round (snd e - dt)) (player_powerUpTimers p))"
  by (simp add: powerUpTick_def Let_def removePowerUp_frame)

lemma tick_base: "player_basePowerValues (powerUpTick dt e p) = player_basePowerValues p"
  by (simp add: powerUpTick_def Let_def removePowerUp_frame)

lemma tick_keeps: "restored k p \<Longrightarrow> restored k (powerUpTick dt e p)"
  by (simp add: powerUpTick_def Let_def removePowerUp_keeps)

lemma tick_restores:
  "fst e = k \<Longrightarrow> double_round (snd e - dt) \<le> 0 \<Longrightarrow> restored k (powerUpTick dt e p)"
  by (auto simp: powerUpTick_def Let_def removePowerUp_restores)

lemma fold_tick_base:
  "player_basePowerValues (fold (powerUpTick dt) es p) = player_basePowerValues p"
  by (induction es arbitrary: p) (simp_all add: tick_base)

lemma fold_tick_keeps: "restored k p \<Longrightarrow> restored k (fold (powerUpTick dt) es p)"
  by (induction es arbitrary: p) (simp_all add: tick_keeps)

lemma fold_tick_distinct:
  "distinct (map fst (player_powerUpTimers p)) \<Longrightarrow>
   distinct (map fst (player_powerUpTimers (fold (powerUpTick dt) es p)))"
  by (induction es arbitrary: p) (simp_all add: tick_timers distinct_update distinct_delete)

lemma fold_tick_timers:
  "distinct (map fst es) \<Longrightarrow>
   map_of (player_powerUpTimers (fold (powerUpTick dt) es p)) k =
     (case map_of es k of
        None \<Rightarrow> map_of (player_powerUpTimers p) k
      | Some t \<Rightarrow> if double_round (t - dt) \<le> 0 then None else Some (double_round (t - dt)))"
proof (induction es arbitrary: p)
  case Nil
  then show ?case by simp
next
  case (Cons e es)
  obtain k' t' where e: "e = (k', t')" by (cases e)
  from Cons.prems e have notin: "k' \<notin> fst ` set es" and d: "distinct (map fst es)" by auto
  from notin have none: "map_of es k' = None" by (simp add: map_of_eq_None_iff)
  show ?case
  proof (cases "k = k'")
    case True
    with Cons.IH [OF d, of "powerUpTick dt e p"] none e show ?thesis
      by (simp add: tick_timers update_conv' delete_conv')
  next
    case False
    with Cons.IH [OF d, of "powerUpTick dt e p"] e show ?thesis
      by (simp add: tick_timers update_conv' delete_conv' split: option.splits)
  qed
qed

lemma fold_tick_restores:
  "distinct (map fst es) \<Longrightarrow> map_of es k = Some t \<Longrightarrow> double_round (t - dt) \<le> 0 \<Longrightarrow>
   restored k (fold (powerUpTick dt) es p)"
proof (induction es arbitrary: p)
  case Nil
  then show ?case by simp
next
  case (Cons e es)
  show ?case
  proof (cases "fst e = k")
    case True
    with Cons.prems have "snd e = t" by (cases e) simp
    with True Cons.prems(3) have "restored k (powerUpTick dt e p)"
      by (simp add: tick_restores)
    then show ?thesis by (simp add: fold_tick_keeps)
  next
    case False
    with Cons.prems have "distinct (map fst es)" and "map_of es k = Some t"
      by (cases e; auto)+
    from Cons.IH [OF this Cons.prems(3)] show ?thesis by simp
  qed
qed

text \<open>What one update does to the timer and the stat of a kind.\<close>

lemma update_view:
  "powerView (Player_update dt input level p) =
     powerView (Player_updatePowerUps dt (Player_updatePhysics dt level (Player_handleInput input dt p)))"
  by (simp add: Player_update_def powerView_updateInvulnerability powerView_updateAnimation)

lemma before_powerUps:
  "powerView (Player_updatePhysics dt level (Player_handleInput input dt p)) = powerView p"
  by (simp add: powerView_updatePhysics powerView_handleInput)

lemma update_timer:
  assumes "distinct (map fst (player_powerUpTimers p))"
  shows "map_of (player_powerUpTimers (Player_update dt input level p)) k =
           (case map_of (player_powerUpTimers p) k of
              None \<Rightarrow> None
            | Some t \<Rightarrow> if double_round (t - dt) \<le> 0 then None else Some (double_round (t - dt)))"
proof -
  let ?q = "Player_updatePhysics dt level (Player_handleInput input dt p)"
  have q: "player_powerUpTimers ?q = player_powerUpTimers p"
    by (rule timers_cong [OF before_powerUps])
  have "player_powerUpTimers (Player_update dt input level p)
          = player_powerUpTimers (Player_updatePowerUps dt ?q)"
    by (rule timers_cong [OF update_view])
  then show ?thesis
    using fold_tick_timers [of "player_powerUpTimers p" dt ?q k] assms
    by (simp add: Player_updatePowerUps_def q split: option.splits)
qed

lemma update_distinct:
  assumes "distinct (map fst (player_powerUpTimers p))"
  shows "distinct (map fst (player_powerUpTimers (Player_update dt input level p)))"
proof -
  let ?q = "Player_updatePhysics dt level (Player_handleInput input dt p)"
  have q: "player_powerUpTimers ?q = player_powerUpTimers p"
    by (rule timers_cong [OF before_powerUps])
  have "player_powerUpTimers (Player_update dt input level p)
          = player_powerUpTimers (Player_updatePowerUps dt ?q)"
    by (rule timers_cong [OF update_view])
  then show ?thesis
    using fold_tick_distinct [of ?q dt "player_powerUpTimers p"] assms
    by (simp add: Player_updatePowerUps_def q)
qed

lemma update_base:
  "player_basePowerValues (Player_update dt input level p) = player_basePowerValues p"
proof -
  let ?q = "Player_updatePhysics dt level (Player_handleInput input dt p)"
  have "player_basePowerValues (Player_update dt input level p)
          = player_basePowerValues (Player_updatePowerUps dt ?q)"
    by (rule base_cong [OF update_view])
  also have "\<dots> = player_basePowerValues ?q"
    by (simp add: Player_updatePowerUps_def fold_tick_base)
  also have "\<dots> = player_basePowerValues p"
    by (rule base_cong [OF before_powerUps])
  finally show ?thesis .
qed

lemma update_keeps:
  assumes "restored k p"
  shows "restored k (Player_update dt input level p)"
proof -
  let ?q = "Player_updatePhysics dt level (Player_handleInput input dt p)"
  from assms have "restored k ?q"
    by (simp add: restored_cong [OF before_powerUps])
  then have "restored k (Player_updatePowerUps dt ?q)"
    by (simp add: Player_updatePowerUps_def fold_tick_keeps)
  then show ?thesis by (simp add: restored_cong [OF update_view])
qed

lemma update_restores:
  assumes "distinct (map fst (player_powerUpTimers p))"
    and "map_of (player_powerUpTimers p) k = Some t" and "double_round (t - dt) \<le> 0"
  shows "restored k (Player_update dt input level p)"
proof -
  let ?q = "Player_updatePhysics dt level (Player_handleInput input dt p)"
  have q: "player_powerUpTimers ?q = player_powerUpTimers p"
    by (rule timers_cong [OF before_powerUps])
  have "restored k (Player_updatePowerUps dt ?q)"
    using fold_tick_restores [of "player_powerUpTimers p" k t dt ?q] assms
    by (simp add: Player_updatePowerUps_def q)
  then show ?thesis by (simp add: restored_cong [OF update_view])
qed

lemma pending_cong: "powerView a = powerView b \<Longrightarrow> pending k r a = pending k r b"
  using timers_cong [of a b] restored_cong [of a b k]
  by (simp add: pending_def cong: option.case_cong)

lemma apply_other_keeps:
  "k' \<noteq> k \<Longrightarrow> restored k p \<Longrightarrow> restored k (Player_applyPowerUp k' p)"
  by (cases k; cases k') (simp_all add: Player_applyPowerUp_def restored_def Let_def)

lemma apply_timers:
  "player_powerUpTimers (Player_applyPowerUp k p) = AList.update k 10 (player_powerUpTimers p)"
  by (simp add: Player_applyPowerUp_def Let_def split: PowerUpType.splits)

lemma apply_base:
  "player_basePowerValues (Player_applyPowerUp k p) = player_basePowerValues p"
  by (simp add: Player_applyPowerUp_def Let_def split: PowerUpType.splits)

text \<open>
  One call takes the invariant on: the bound \<open>r\<close> on the timer goes down by the time of
  the call, and up by at most \<open>1 / 2 ^ 50\<close> for the rounding in an update.
\<close>

lemma pending_step:
  assumes "pending k r p" and "\<not> reapplies k ev" and "forward ev"
  shows "pending k (r - eventTime ev + (if isUpdate ev then 1 / 2 ^ 50 else 0)) (applyEvent ev p)"
proof (cases ev)
  case (Update dt input level)
  from assms(1) have d: "distinct (map fst (player_powerUpTimers p))"
    by (simp add: pending_def)
  from assms(3) Update have dt: "0 \<le> dt" by (simp add: forward_def)
  show ?thesis
  proof (cases "map_of (player_powerUpTimers p) k")
    case None
    with assms(1) have "restored k p" by (simp add: pending_def)
    then have "restored k (Player_update dt input level p)" by (rule update_keeps)
    with None d show ?thesis
      by (simp add: Update pending_def update_distinct update_timer)
  next
    case (Some t)
    with assms(1) have t: "0 < t" "t \<le> r" "t \<le> 10" by (simp_all add: pending_def)
    show ?thesis
    proof (cases "double_round (t - dt) \<le> 0")
      case True
      from update_restores [OF d Some True] Some True d show ?thesis
        by (simp add: Update pending_def update_distinct update_timer)
    next
      case False
      have pos: "0 < t - dt"
      proof (rule ccontr)
        assume "\<not> 0 < t - dt"
        then have "double_round (t - dt) \<le> 0" by (simp add: double_round_nonpos)
        with False show False by simp
      qed
      from t dt have le: "t - dt \<le> 10" and lt: "t - dt < 16" by simp_all
      from double_round_upper [OF pos lt] t
      have up: "double_round (t - dt) \<le> r - dt + 1 / 2 ^ 50" by simp
      from double_round_cap [OF pos le] have cap: "double_round (t - dt) \<le> 10" .
      have timer: "map_of (player_powerUpTimers (Player_update dt input level p)) k
                     = Some (double_round (t - dt))"
        using Some False by (simp add: update_timer [OF d])
      from False have "0 < double_round (t - dt)" by simp
      with timer up cap update_distinct [OF d, of dt input level] show ?thesis
        by (simp add: Update pending_def)
    qed
  qed
next
  case (ApplyPowerUp k')
  with assms(2) have ne: "k' \<noteq> k" by simp
  have same: "map_of (player_powerUpTimers (Player_applyPowerUp k' p)) k
                = map_of (player_powerUpTimers p) k"
    using ne by (simp add: apply_timers update_conv')
  have dist: "distinct (map fst (player_powerUpTimers (Player_applyPowerUp k' p)))"
    using assms(1) by (simp add: pending_def apply_timers distinct_update)
  show ?thesis
  proof (cases "map_of (player_powerUpTimers p) k")
    case None
    with assms(1) have "restored k p" by (simp add: pending_def)
    with ne have "restored k (Player_applyPowerUp k' p)" by (simp add: apply_other_keeps)
    with None same dist show ?thesis by (simp add: ApplyPowerUp pending_def)
  next
    case (Some t)
    with assms(1) have "0 < t" "t \<le> r" "t \<le> 10" by (simp_all add: pending_def)
    with Some same dist show ?thesis by (simp add: ApplyPowerUp pending_def)
  qed
next
  case TakeDamage
  from assms(1) show ?thesis
    by (simp add: TakeDamage pending_cong [OF powerView_takeDamage])
next
  case Bounce
  from assms(1) show ?thesis
    by (simp add: Bounce pending_cong [OF powerView_bounce])
next
  case Respawn
  from assms(1) show ?thesis
    by (simp add: Respawn pending_cong [OF powerView_respawn])
qed

lemma pending_run:
  "pending k r p \<Longrightarrow> list_all (\<lambda>ev. \<not> reapplies k ev) evs \<Longrightarrow> list_all forward evs \<Longrightarrow>
   pending k (r - elapsed evs + real (updates evs) / 2 ^ 50) (fold applyEvent evs p)"
proof (induction evs arbitrary: p r)
  case Nil
  then show ?case by (simp add: elapsed_def updates_def)
next
  case (Cons ev evs)
  let ?r = "r - eventTime ev + (if isUpdate ev then 1 / 2 ^ 50 else 0)"
  from Cons.prems have step: "pending k ?r (applyEvent ev p)"
    by (simp add: pending_step)
  from Cons.prems have rest: "list_all (\<lambda>ev. \<not> reapplies k ev) evs" "list_all forward evs"
    by simp_all
  have eq: "?r - elapsed evs + real (updates evs) / 2 ^ 50
              = r - elapsed (ev # evs) + real (updates (ev # evs)) / 2 ^ 50"
    by (simp add: elapsed_def updates_def add_divide_distrib)
  from Cons.IH [OF step rest]
  have "pending k (?r - elapsed evs + real (updates evs) / 2 ^ 50)
          (fold applyEvent evs (applyEvent ev p))" .
  then show ?case by (simp only: eq fold_simps)
qed

lemma applyEvent_base:
  "player_basePowerValues (applyEvent ev p) = player_basePowerValues p"
proof (cases ev)
  case (Update dt input level)
  then show ?thesis by (simp add: update_base)
next
  case (ApplyPowerUp k')
  then show ?thesis by (simp add: apply_base)
next
  case TakeDamage
  then show ?thesis by (simp add: base_cong [OF powerView_takeDamage])
next
  case Bounce
  then show ?thesis by (simp add: base_cong [OF powerView_bounce])
next
  case Respawn
  then show ?thesis by (simp add: base_cong [OF powerView_respawn])
qed

lemma run_base:
  "player_basePowerValues (fold applyEvent evs p) = player_basePowerValues p"
  by (induction evs arbitrary: p) (simp_all add: applyEvent_base)

text \<open>
  C2, as the code has it. Let the keys of the timer map be distinct, as they are in a
  \<^verbatim>\<open>Map\<close>. Then \<^verbatim>\<open>applyPowerUp(k)\<close> sets the timer of \<open>k\<close> to 10. After any run of
  calls (updates with any input and level and a \<open>deltaTime\<close> that is not negative,
  \<^verbatim>\<open>takeDamage\<close>, \<^verbatim>\<open>bounce\<close>, \<^verbatim>\<open>respawn\<close>, \<^verbatim>\<open>applyPowerUp\<close> of other kinds) whose
  updates add up to at least 10 seconds and \<open>1 / 2 ^ 50\<close> seconds more for each update,
  the kind \<open>k\<close> is absent from the timer map and its stat has its base value: the stored
  speed and maxSpeed, the stored jumpPower, the size 32 by 48; for \<open>Invincible\<close> there is
  no stat. The stored base values are those from before the power-up.
\<close>

theorem powerUp_expires:
  "distinct (map fst (player_powerUpTimers p)) \<Longrightarrow>
   map_of (player_powerUpTimers (Player_applyPowerUp k p)) k = Some 10
   \<and> (list_all (\<lambda>ev. \<not> reapplies k ev) evs \<and> list_all forward evs
        \<and> 10 + real (updates evs) / 2 ^ 50 \<le> elapsed evs \<longrightarrow>
        map_of (player_powerUpTimers (runEvents evs (Player_applyPowerUp k p))) k = None
        \<and> restored k (runEvents evs (Player_applyPowerUp k p))
        \<and> player_basePowerValues (runEvents evs (Player_applyPowerUp k p))
            = player_basePowerValues p)"
proof -
  assume d: "distinct (map fst (player_powerUpTimers p))"
  have ten: "map_of (player_powerUpTimers (Player_applyPowerUp k p)) k = Some 10"
    by (simp add: apply_timers update_conv')
  with d have start: "pending k 10 (Player_applyPowerUp k p)"
    by (simp add: pending_def apply_timers distinct_update)
  {
    assume no: "list_all (\<lambda>ev. \<not> reapplies k ev) evs" and fw: "list_all forward evs"
      and long: "10 + real (updates evs) / 2 ^ 50 \<le> elapsed evs"
    from pending_run [OF start no fw]
    have "pending k (10 - elapsed evs + real (updates evs) / 2 ^ 50)
            (fold applyEvent evs (Player_applyPowerUp k p))" .
    with long
    have "map_of (player_powerUpTimers (runEvents evs (Player_applyPowerUp k p))) k = None
          \<and> restored k (runEvents evs (Player_applyPowerUp k p))"
      by (auto simp: pending_def runEvents_def split: option.splits)
  }
  with ten show ?thesis
    by (simp add: runEvents_def run_base apply_base)
qed

theorem powerUp_expires_witness:
  "distinct (map fst (player_powerUpTimers (newPlayer 100 400)))
   \<and> map_of (player_powerUpTimers (Player_applyPowerUp Speed (newPlayer 100 400))) Speed = Some 10
   \<and> player_speed (Player_applyPowerUp Speed (newPlayer 100 400)) = 300
   \<and> list_all (\<lambda>ev. \<not> reapplies Speed ev) elevenSeconds \<and> list_all forward elevenSeconds
   \<and> 10 + real (updates elevenSeconds) / 2 ^ 50 \<le> elapsed elevenSeconds
   \<and> map_of (player_powerUpTimers
                (runEvents elevenSeconds (Player_applyPowerUp Speed (newPlayer 100 400)))) Speed = None
   \<and> player_speed (runEvents elevenSeconds (Player_applyPowerUp Speed (newPlayer 100 400))) = 200
   \<and> player_maxSpeed (runEvents elevenSeconds (Player_applyPowerUp Speed (newPlayer 100 400))) = 300"
proof -
  have d: "distinct (map fst (player_powerUpTimers (newPlayer 100 400)))"
    by (simp add: newPlayer_def)
  have evs: "list_all (\<lambda>ev. \<not> reapplies Speed ev) elevenSeconds" "list_all forward elevenSeconds"
    "10 + real (updates elevenSeconds) / 2 ^ 50 \<le> elapsed elevenSeconds"
    by (simp_all add: elevenSeconds_def elapsed_def updates_def forward_def)
  have base: "the (player_basePowerValues (newPlayer 100 400) ''speed'') = 200"
    "the (player_basePowerValues (newPlayer 100 400) ''maxSpeed'') = 300"
    by (simp_all add: newPlayer_def)
  have boosted: "player_speed (Player_applyPowerUp Speed (newPlayer 100 400)) = 300"
    by (simp add: Player_applyPowerUp_def newPlayer_def)
  from powerUp_expires [OF d, of Speed elevenSeconds] d evs base boosted show ?thesis
    by (simp add: restored_def)
qed

text \<open>
  Without the margin for rounding the timer can outlast its ten seconds. A player takes the
  speed power-up and is updated 641 times, by at most 0.016 s each time and by
  \<open>10 + 59 / 2 ^ 59\<close> seconds in all. The first subtraction, \<open>10 - tenMs\<close>, is rounded up,
  by more than the 59 / 2 ^ 59 s that the run goes beyond 10 s; the others are exact. So
  after the run the timer still holds \<open>1 / 2 ^ 53\<close> seconds and the speed is still 300.
\<close>

lemma powerView_timers_upd:
  "powerView (p\<lparr>player_powerUpTimers := ts\<rparr>) = (ts, snd (powerView p))"
  by (simp add: powerView_def)

lemma update_single:
  assumes "powerView p = ([(k, t)], rest)" and "0 < double_round (t - dt)"
  shows "powerView (Player_update dt input level p) = ([(k, double_round (t - dt))], rest)"
proof -
  let ?q = "Player_updatePhysics dt level (Player_handleInput input dt p)"
  have v: "powerView ?q = ([(k, t)], rest)"
    using assms(1) by (simp only: before_powerUps)
  then have ts: "player_powerUpTimers ?q = [(k, t)]"
    by (simp add: powerView_def)
  have "Player_updatePowerUps dt ?q
          = ?q\<lparr>player_powerUpTimers := [(k, double_round (t - dt))]\<rparr>"
    using assms(2) by (simp add: Player_updatePowerUps_def ts powerUpTick_def Let_def)
  then have "powerView (Player_updatePowerUps dt ?q) = ([(k, double_round (t - dt))], rest)"
    by (simp only: powerView_timers_upd v snd_conv)
  then show ?thesis by (simp only: update_view)
qed

lemma run_sixtyfourths:
  assumes "powerView p = ([(k, real_of_int m / 2 ^ 49)], rest)"
    and "int n * 2 ^ 43 < m" and "m < 2 ^ 53"
  shows "powerView (fold applyEvent (replicate n (Update (1 / 64) input level)) p)
           = ([(k, real_of_int (m - int n * 2 ^ 43) / 2 ^ 49)], rest)"
  using assms
proof (induction n arbitrary: p m)
  case 0
  then show ?case by simp
next
  case (Suc n)
  let ?m = "m - 2 ^ 43"
  from Suc.prems have m: "0 < ?m" "?m < 2 ^ 53" and n: "int n * 2 ^ 43 < ?m"
    by simp_all
  have e: "real_of_int m / 2 ^ 49 - 1 / 64 = real_of_int ?m / 2 ^ 49"
    by simp
  have r: "double_round (real_of_int m / 2 ^ 49 - 1 / 64) = real_of_int ?m / 2 ^ 49"
    unfolding e by (rule double_round_dyadic [OF m]) simp
  with m have "0 < double_round (real_of_int m / 2 ^ 49 - 1 / 64)" by simp
  from update_single [OF Suc.prems(1) this, of input level]
  have "powerView (Player_update (1 / 64) input level p)
          = ([(k, real_of_int ?m / 2 ^ 49)], rest)"
    by (simp only: r)
  from Suc.IH [OF this n m(2)] show ?case
    by (simp add: algebra_simps)
qed

lemma after_lateRun:
  "powerView (runEvents lateRun (Player_applyPowerUp Speed (newPlayer 100 400)))
     = ([(Speed, 1 / 2 ^ 53)], snd (powerView (Player_applyPowerUp Speed (newPlayer 100 400))))"
proof -
  let ?p = "Player_applyPowerUp Speed (newPlayer 100 400)"
  let ?rest = "snd (powerView ?p)"
  let ?p1 = "Player_update tenMs noInput groundOnly ?p"
  let ?p2 = "fold applyEvent (replicate 639 (Update (1 / 64) noInput groundOnly)) ?p1"
  have p: "powerView ?p = ([(Speed, 10)], ?rest)"
    by (simp add: powerView_def Player_applyPowerUp_def newPlayer_def)
  have r1: "double_round (10 - tenMs) = real_of_int 5623870034678907 / 2 ^ 49"
    using first_ten_ms by (simp add: tenMs_def)
  then have "0 < double_round (10 - tenMs)" by simp
  from update_single [OF p this, of noInput groundOnly]
  have p1: "powerView ?p1 = ([(Speed, real_of_int 5623870034678907 / 2 ^ 49)], ?rest)"
    by (simp only: r1)
  have "powerView ?p2
          = ([(Speed, real_of_int (5623870034678907 - int 639 * 2 ^ 43) / 2 ^ 49)], ?rest)"
    by (rule run_sixtyfourths [OF p1]) simp_all
  then have p2: "powerView ?p2 = ([(Speed, 3166593487995 / 2 ^ 49)], ?rest)"
    by simp
  have "3166593487995 / 2 ^ 49 - lastMs = (1::real) / 2 ^ 53"
    by (simp add: lastMs_def)
  then have r3: "double_round (3166593487995 / 2 ^ 49 - lastMs) = 1 / 2 ^ 53"
    by (simp only: double_round_bit53)
  then have "0 < double_round (3166593487995 / 2 ^ 49 - lastMs)" by simp
  from update_single [OF p2 this, of noInput groundOnly]
  have "powerView (Player_update lastMs noInput groundOnly ?p2) = ([(Speed, 1 / 2 ^ 53)], ?rest)"
    by (simp only: r3)
  then show ?thesis
    by (simp only: runEvents_def lateRun_def fold_simps fold_append o_apply applyEvent.simps)
qed

theorem powerUp_outlasts_ten_seconds_counterexample:
  "list_all (\<lambda>ev. \<not> reapplies Speed ev) lateRun
   \<and> list_all engineFrame lateRun
   \<and> 10 \<le> elapsed lateRun
   \<and> map_of (player_powerUpTimers
               (runEvents lateRun (Player_applyPowerUp Speed (newPlayer 100 400)))) Speed
       = Some (1 / 2 ^ 53)
   \<and> player_speed (runEvents lateRun (Player_applyPowerUp Speed (newPlayer 100 400))) = 300
   \<and> the (player_basePowerValues
             (runEvents lateRun (Player_applyPowerUp Speed (newPlayer 100 400))) ''speed'') = 200"
proof -
  let ?p = "runEvents lateRun (Player_applyPowerUp Speed (newPlayer 100 400))"
  have run: "list_all (\<lambda>ev. \<not> reapplies Speed ev) lateRun" "list_all engineFrame lateRun"
    by (simp_all add: lateRun_def list_all_iff engineFrame_def tenMs_def lastMs_def)
  have long: "10 \<le> elapsed lateRun"
    by (simp add: lateRun_def elapsed_def tenMs_def lastMs_def sum_list_replicate)
  from after_lateRun
  have "player_powerUpTimers ?p = [(Speed, 1 / 2 ^ 53)]" and "player_speed ?p = 300"
    and "the (player_basePowerValues ?p ''speed'') = 200"
    by (simp_all add: powerView_def Player_applyPowerUp_def newPlayer_def)
  with run long show ?thesis by simp
qed

section \<open>Player: horizontal bounds\<close>















text \<open>
  The bounds for the width after the update can fail when a size power-up ends, since
  \<open>updatePowerUps\<close> runs after the clamp: the width grows from 24 to 32 at an x that was
  clamped for 24. At x = 2024 the player touches no platform of the generated level but
  the last ground tile, so an update there is an update on that tile alone.
\<close>

lemma advance_halves [simp]: "advance m halves = halves"
  by (simp add: advance_def halves_def)















end
